theory Spec2Isabelle
  imports Main "HOL-Library.Char_ord" "HOL-Library.List_Lexorder" "HOL-Library.Multiset"
begin

section \<open>Values and exceptions\<close>

text \<open>
  The client works on the trees that \<^verbatim>\<open>response.json()\<close> returns. A JSON object is an
  association list; a Python dict made by the JSON decoder has pairwise distinct keys, and
  lookup takes the first binding. JSON numbers are the integers (Python's unbounded
  \<^verbatim>\<open>int\<close>); numbers with a fraction are outside the model. Strings are byte
  strings in UTF-8, whose lexicographic order is the code point order Python compares by.
\<close>

datatype json =
    JNull
  | JBool bool
  | JInt int
  | JStr string
  | JArr "json list"
  | JObj "(string \<times> json) list"

text \<open>The exceptions that the code under study can raise or let through.\<close>

datatype error =
    TypeError
  | ValueError
  | AttributeError
  | KeyError
  | OverflowError
  | RuntimeError
  | RegexError
  | TransportError
  | DecodeError
  | TableError
  | OSError

text \<open>Truth value testing (\<^verbatim>\<open>if x:\<close>, \<^verbatim>\<open>not x\<close>).\<close>

fun truthy :: "json \<Rightarrow> bool" where
  "truthy JNull = False"
| "truthy (JBool b) = b"
| "truthy (JInt n) = (n \<noteq> 0)"
| "truthy (JStr s) = (s \<noteq> [])"
| "truthy (JArr xs) = (xs \<noteq> [])"
| "truthy (JObj kvs) = (kvs \<noteq> [])"

fun is_JStr :: "json \<Rightarrow> bool" where
  "is_JStr (JStr s) = True"
| "is_JStr v = False"

fun str_of :: "json \<Rightarrow> string" where
  "str_of (JStr s) = s"
| "str_of v = []"

text \<open>\<^verbatim>\<open>d.get(k, default)\<close> and \<^verbatim>\<open>k in d\<close> on a dict.\<close>

definition dict_get :: "(string \<times> json) list \<Rightarrow> string \<Rightarrow> json \<Rightarrow> json" where
  "dict_get kvs k d = (case map_of kvs k of None \<Rightarrow> d | Some v \<Rightarrow> v)"

definition dict_has :: "(string \<times> json) list \<Rightarrow> string \<Rightarrow> bool" where
  "dict_has kvs k = (case map_of kvs k of None \<Rightarrow> False | Some v \<Rightarrow> True)"

text \<open>\<^verbatim>\<open>x.get(k, default)\<close> on any value: only a dict has the method.\<close>

definition py_get :: "json \<Rightarrow> string \<Rightarrow> json \<Rightarrow> error + json" where
  "py_get x k d = (case x of JObj kvs \<Rightarrow> Inr (dict_get kvs k d) | _ \<Rightarrow> Inl AttributeError)"

text \<open>
  Iteration (\<^verbatim>\<open>for x in v\<close>): a list gives its elements, a dict its keys, a string its
  characters (one string per code point, so a UTF-8 lead byte keeps its continuation
  bytes); anything else is not iterable.
\<close>

definition is_cont :: "char \<Rightarrow> bool" where
  "is_cont ch = (128 \<le> (of_char ch :: nat) \<and> (of_char ch :: nat) < 192)"

function codepoints :: "string \<Rightarrow> string list" where
  "codepoints [] = []"
| "codepoints (ch # cs) = (ch # takeWhile is_cont cs) # codepoints (dropWhile is_cont cs)"
  by pat_completeness auto
termination
  by (relation "measure length") (auto simp: less_Suc_eq_le length_dropWhile_le)

definition py_iter :: "json \<Rightarrow> error + json list" where
  "py_iter v = (case v of
       JArr xs \<Rightarrow> Inr xs
     | JObj kvs \<Rightarrow> Inr (map (\<lambda>kv. JStr (fst kv)) kvs)
     | JStr s \<Rightarrow> Inr (map JStr (codepoints s))
     | _ \<Rightarrow> Inl TypeError)"

text \<open>\<^verbatim>\<open>sep.join(xs)\<close> on strings.\<close>

fun join :: "string \<Rightarrow> string list \<Rightarrow> string" where
  "join sep [] = []"
| "join sep [x] = x"
| "join sep (x # y # ys) = x @ sep @ join sep (y # ys)"

text \<open>\<^verbatim>\<open>sep.join(v)\<close> on a value: every item must be a string.\<close>

definition py_join :: "string \<Rightarrow> json \<Rightarrow> error + string" where
  "py_join sep v = (case py_iter v of
       Inl e \<Rightarrow> Inl e
     | Inr xs \<Rightarrow> if list_all is_JStr xs then Inr (join sep (map str_of xs)) else Inl TypeError)"

section \<open>Integers and their text\<close>

text \<open>\<^verbatim>\<open>str(n)\<close> for an integer: decimal digits, a minus sign for negatives.\<close>

definition digit_char :: "nat \<Rightarrow> char" where
  "digit_char d = ''0123456789'' ! d"

fun digits_of :: "nat \<Rightarrow> string" where
  "digits_of n = (if n < 10 then [digit_char n] else digits_of (n div 10) @ [digit_char (n mod 10)])"

declare digits_of.simps [simp del]

definition py_str_int :: "int \<Rightarrow> string" where
  "py_str_int n = (if n < 0 then CHR ''-'' # digits_of (nat (- n)) else digits_of (nat n))"

text \<open>
  \<^verbatim>\<open>'{number:,}'.format(number=n)\<close>: the digits of the absolute value with a comma
  before every group of three counted from the right, after the sign.
\<close>

fun commas :: "string \<Rightarrow> string" where
  "commas s = (if length s \<le> 3 then s
     else commas (take (length s - 3) s) @ CHR '','' # drop (length s - 3) s)"

declare commas.simps [simp del]

definition py_format_comma :: "int \<Rightarrow> string" where
  "py_format_comma n =
     (if n < 0 then CHR ''-'' # commas (digits_of (nat (- n))) else commas (digits_of (nat n)))"

text \<open>
  \<^verbatim>\<open>int(s)\<close> for a string of ASCII characters: surrounding white space (tab, line
  feed, vertical tab, form feed, carriage return, space) is dropped, one sign is allowed,
  then decimal digits, where single underscores may stand between digits. The
  interpreter's optional limit on the number of digits of a conversion is not modelled.
\<close>

definition is_space :: "char \<Rightarrow> bool" where
  "is_space ch = ((of_char ch :: nat) \<in> {9, 10, 11, 12, 13, 32})"

definition is_digit :: "char \<Rightarrow> bool" where
  "is_digit ch = (48 \<le> (of_char ch :: nat) \<and> (of_char ch :: nat) \<le> 57)"

definition digit_val :: "char \<Rightarrow> nat" where
  "digit_val ch = of_char ch - 48"

definition strip :: "string \<Rightarrow> string" where
  "strip s = rev (dropWhile is_space (rev (dropWhile is_space s)))"

fun parse_digits :: "nat \<Rightarrow> string \<Rightarrow> nat option" where
  "parse_digits acc [] = Some acc"
| "parse_digits acc [ch] = (if is_digit ch then Some (acc * 10 + digit_val ch) else None)"
| "parse_digits acc (ch # d # cs) =
     (if is_digit ch then parse_digits (acc * 10 + digit_val ch) (d # cs)
      else if ch = CHR ''_'' \<and> is_digit d then parse_digits acc (d # cs)
      else None)"

definition parse_nat :: "string \<Rightarrow> nat option" where
  "parse_nat s = (case s of [] \<Rightarrow> None
     | ch # cs \<Rightarrow> if is_digit ch then parse_digits 0 s else None)"

definition parse_int :: "string \<Rightarrow> int option" where
  "parse_int s = (case strip s of
       [] \<Rightarrow> None
     | ch # cs \<Rightarrow>
         if ch = CHR ''-'' then map_option (\<lambda>n. - int n) (parse_nat cs)
         else if ch = CHR ''+'' then map_option int (parse_nat cs)
         else map_option int (parse_nat (ch # cs)))"

section \<open>The environment and the client\<close>

text \<open>
  What the client takes from outside its own code is a parameter of the model:
  \<^item> \<open>gateway\<close>: the HTTP GET of an address followed by \<^verbatim>\<open>response.json()\<close>, which
    may answer differently as the run goes on (its first argument is the list of the
    requests made so far) and may raise;
  \<^item> \<open>re_match\<close>: \<^verbatim>\<open>bool(re.match(pattern, value))\<close>, which raises on a bad pattern
    or on a value that is no string;
  \<^item> \<open>py_str\<close>: \<^verbatim>\<open>str(v)\<close> of a value that is no string, as \<^verbatim>\<open>str.format\<close> uses it;
  \<^item> \<open>uni_space\<close> and \<open>uni_decimal\<close>: the Unicode database, asked about one code
    point given by its UTF-8 bytes: whether it is white space, and its value if it is a
    decimal digit;
  \<^item> \<open>list_gt\<close>: \<^verbatim>\<open>a > b\<close> on two lists;
  \<^item> \<open>date_str\<close>: \<^verbatim>\<open>str(datetime.fromtimestamp(n / 1000))\<close>;
  \<^item> \<open>age_str\<close>: \<^verbatim>\<open>str(datetime.now() - datetime.fromtimestamp(n / 1000))\<close> at the
    k-th reading of the wall clock;
  \<^item> \<open>sort_mixed\<close> and \<open>draw\<close>: the parts of \<^verbatim>\<open>PrettyTable\<close> that are left
    open, see the section on tables.
\<close>

type_synonym row = "json list"

record table =
  field_names :: "string list"
  align :: string
  rows :: "row list"

record env =
  gateway :: "json list list \<Rightarrow> string \<Rightarrow> error + json"
  re_match :: "string \<Rightarrow> json \<Rightarrow> error + bool"
  py_str :: "json \<Rightarrow> string"
  uni_space :: "string \<Rightarrow> bool"
  uni_decimal :: "string \<Rightarrow> nat option"
  list_gt :: "json list \<Rightarrow> json list \<Rightarrow> error + bool"
  date_str :: "int \<Rightarrow> error + string"
  age_str :: "nat \<Rightarrow> int \<Rightarrow> error + string"
  sort_mixed :: "row list \<Rightarrow> error + row list"
  draw :: "table \<Rightarrow> string"

text \<open>
  The fields of \<^verbatim>\<open>BurrowClient\<close>; \<^verbatim>\<open>_clusters\<close> starts as \<^verbatim>\<open>None\<close>, the other
  caches as empty dicts. Three more fields record what the object does to the world:
  \<open>calls\<close> lists the argument tuples of the invocations of \<^verbatim>\<open>request\<close>,
  \<open>stdout\<close> is the text written so far, \<open>clock\<close> counts the readings of the wall clock.
\<close>

record client =
  url :: string
  api :: string
  verbose :: bool
  debug :: bool
  decimal :: bool
  enable_clusters :: bool
  enable_topics :: bool
  enable_consumers :: bool
  enable_consumer_status :: bool
  enable_consumer_partitions :: bool
  filter_topic :: "string option"
  filter_consumer :: "string option"
  cache_clusters :: json
  cache_cluster_details :: "string \<rightharpoonup> json"
  cache_consumers :: "string \<rightharpoonup> json"
  cache_topics :: "string \<rightharpoonup> json"
  cache_topic_details :: "string \<rightharpoonup> json"
  cache_consumer_details :: "string \<rightharpoonup> json"
  cache_consumer_status :: "string \<rightharpoonup> json"
  calls :: "json list list"
  stdout :: string
  clock :: nat

definition init :: "string \<Rightarrow> string \<Rightarrow> bool \<Rightarrow> bool \<Rightarrow> client" where
  "init u a v d = \<lparr> url = u, api = a, verbose = v, debug = d, decimal = False,
     enable_clusters = False, enable_topics = False, enable_consumers = False,
     enable_consumer_status = False, enable_consumer_partitions = False,
     filter_topic = None, filter_consumer = None,
     cache_clusters = JNull, cache_cluster_details = Map.empty, cache_consumers = Map.empty,
     cache_topics = Map.empty, cache_topic_details = Map.empty,
     cache_consumer_details = Map.empty, cache_consumer_status = Map.empty,
     calls = [], stdout = [], clock = 0 \<rparr>"

definition output_msg :: "client \<Rightarrow> string \<Rightarrow> client" where
  "output_msg c message =
     c\<lparr>stdout := stdout c @
        (if message \<noteq> [] \<and> last message = CHR 0x0A then message else message @ [CHR 0x0A])\<rparr>"

text \<open>\<^verbatim>\<open>'/'.join([self.url, self.api] + list(paths))\<close>: a path that is no string raises.\<close>

definition address :: "client \<Rightarrow> json list \<Rightarrow> error + string" where
  "address c paths =
     (if list_all is_JStr paths then Inr (join ''/'' ([url c, api c] @ map str_of paths))
      else Inl TypeError)"

definition request :: "env \<Rightarrow> client \<Rightarrow> json list \<Rightarrow> (error + json) \<times> client" where
  "request E c paths =
     (let c0 = c\<lparr>calls := calls c @ [paths]\<rparr> in
      case address c0 paths of
        Inl e \<Rightarrow> (Inl e, c0)
      | Inr a \<Rightarrow>
          (let c1 = (if debug c0 then output_msg c0 (''=> GET: '' @ a) else c0)
           in (gateway E (calls c) a, c1)))"

section \<open>Formatting\<close>

text \<open>
  \<^verbatim>\<open>int(x)\<close> on a value. A string of ASCII characters is parsed as it is. In any
  other string the interpreter first goes through the code points: one below 127 is
  kept, a white space becomes a space, a decimal digit becomes the ASCII digit of its
  value, and the first code point that is none of these becomes \<^verbatim>\<open>?\<close> and ends the
  text; the result is parsed.
\<close>

definition is_ascii :: "string \<Rightarrow> bool" where
  "is_ascii s = list_all (\<lambda>ch. (of_char ch :: nat) < 128) s"

fun to_ascii :: "env \<Rightarrow> string list \<Rightarrow> string" where
  "to_ascii E [] = []"
| "to_ascii E (cp # cps) =
     (if length cp = 1 \<and> (of_char (hd cp) :: nat) < 127 then hd cp # to_ascii E cps
      else if uni_space E cp then CHR '' '' # to_ascii E cps
      else (case uni_decimal E cp of
              None \<Rightarrow> ''?''
            | Some d \<Rightarrow> char_of (48 + d) # to_ascii E cps))"

definition py_int :: "env \<Rightarrow> json \<Rightarrow> error + int" where
  "py_int E x = (case x of
       JInt n \<Rightarrow> Inr n
     | JBool b \<Rightarrow> Inr (if b then 1 else 0)
     | JStr s \<Rightarrow>
         (case parse_int (if is_ascii s then s else to_ascii E (codepoints s)) of
            None \<Rightarrow> Inl ValueError
          | Some n \<Rightarrow> Inr n)
     | _ \<Rightarrow> Inl TypeError)"

text \<open>
  \<^verbatim>\<open>except RuntimeError\<close> is the only handler of both timestamp functions: it turns a
  \<open>RuntimeError\<close> into the string \<^verbatim>\<open>'?'\<close> and lets every other exception through.
\<close>

definition except_RuntimeError :: "error \<Rightarrow> error + string" where
  "except_RuntimeError e = (if e = RuntimeError then Inr ''?'' else Inl e)"

definition timestamp_to_date :: "env \<Rightarrow> json \<Rightarrow> error + string" where
  "timestamp_to_date E timestamp =
     (case py_int E timestamp of
        Inl e \<Rightarrow> except_RuntimeError e
      | Inr n \<Rightarrow> (case date_str E n of Inl e \<Rightarrow> except_RuntimeError e | Inr s \<Rightarrow> Inr s))"

definition timestamp_to_age :: "env \<Rightarrow> client \<Rightarrow> json \<Rightarrow> (error + string) \<times> client" where
  "timestamp_to_age E c timestamp =
     (case py_int E timestamp of
        Inl e \<Rightarrow> (except_RuntimeError e, c)
      | Inr n \<Rightarrow>
          (case age_str E (clock c) n of
             Inl e \<Rightarrow> (except_RuntimeError e, c\<lparr>clock := Suc (clock c)\<rparr>)
           | Inr s \<Rightarrow> (Inr s, c\<lparr>clock := Suc (clock c)\<rparr>)))"

definition format_number :: "env \<Rightarrow> client \<Rightarrow> json \<Rightarrow> error + string" where
  "format_number E c number =
     (case py_int E number of
        Inl e \<Rightarrow> Inl e
      | Inr n \<Rightarrow> if decimal c then Inr (py_format_comma n) else Inr (py_str_int n))"


section \<open>The cache accessors\<close>

text \<open>
  \<^verbatim>\<open>key in self._cache\<close> with the cluster name itself as key: a list or dict cannot be
  hashed; a key that is no string is never found, since a value is stored only after
  \<^verbatim>\<open>request\<close> has joined the same name into an address.
\<close>

definition cache_lookup :: "(string \<rightharpoonup> json) \<Rightarrow> json \<Rightarrow> error + json option" where
  "cache_lookup m key = (case key of
       JStr k \<Rightarrow> Inr (m k)
     | JArr xs \<Rightarrow> Inl TypeError
     | JObj kvs \<Rightarrow> Inl TypeError
     | _ \<Rightarrow> Inr None)"

definition cache_store :: "(string \<rightharpoonup> json) \<Rightarrow> json \<Rightarrow> json \<Rightarrow> (string \<rightharpoonup> json)" where
  "cache_store m key v = (case key of JStr k \<Rightarrow> m(k \<mapsto> v) | _ \<Rightarrow> m)"

text \<open>\<^verbatim>\<open>"{cluster}-{name}".format(cluster=cluster, name=name)\<close>\<close>

definition fmt :: "env \<Rightarrow> json \<Rightarrow> string" where
  "fmt E v = (case v of JStr s \<Rightarrow> s | _ \<Rightarrow> py_str E v)"

definition pair_key :: "env \<Rightarrow> json \<Rightarrow> json \<Rightarrow> string" where
  "pair_key E cluster name = fmt E cluster @ ''-'' @ fmt E name"

definition clusters :: "env \<Rightarrow> client \<Rightarrow> (error + json) \<times> client" where
  "clusters E c =
     (if truthy (cache_clusters c) then (Inr (cache_clusters c), c)
      else case request E c [] of
        (Inl e, c1) \<Rightarrow> (Inl e, c1)
      | (Inr data, c1) \<Rightarrow>
          (case py_get data ''clusters'' (JArr []) of
             Inl e \<Rightarrow> (Inl e, c1)
           | Inr v \<Rightarrow> (Inr v, if truthy v then c1\<lparr>cache_clusters := v\<rparr> else c1)))"

definition cluster_details :: "env \<Rightarrow> client \<Rightarrow> json \<Rightarrow> (error + json) \<times> client" where
  "cluster_details E c cluster =
     (case cache_lookup (cache_cluster_details c) cluster of
        Inl e \<Rightarrow> (Inl e, c)
      | Inr (Some v) \<Rightarrow> (Inr v, c)
      | Inr None \<Rightarrow>
          (case request E c [cluster] of
             (Inl e, c1) \<Rightarrow> (Inl e, c1)
           | (Inr data, c1) \<Rightarrow>
               (case py_get data ''module'' (JObj []) of
                  Inl e \<Rightarrow> (Inl e, c1)
                | Inr v \<Rightarrow> (Inr v,
                    if truthy v
                    then c1\<lparr>cache_cluster_details := cache_store (cache_cluster_details c1) cluster v\<rparr>
                    else c1))))"

definition topics :: "env \<Rightarrow> client \<Rightarrow> json \<Rightarrow> (error + json) \<times> client" where
  "topics E c cluster =
     (case cache_lookup (cache_topics c) cluster of
        Inl e \<Rightarrow> (Inl e, c)
      | Inr (Some v) \<Rightarrow> (Inr v, c)
      | Inr None \<Rightarrow>
          (case request E c [cluster, JStr ''topic''] of
             (Inl e, c1) \<Rightarrow> (Inl e, c1)
           | (Inr data, c1) \<Rightarrow>
               (case py_get data ''topics'' (JArr []) of
                  Inl e \<Rightarrow> (Inl e, c1)
                | Inr v \<Rightarrow> (Inr v,
                    if truthy v
                    then c1\<lparr>cache_topics := cache_store (cache_topics c1) cluster v\<rparr>
                    else c1))))"

definition topic_details :: "env \<Rightarrow> client \<Rightarrow> json \<Rightarrow> json \<Rightarrow> (error + json) \<times> client" where
  "topic_details E c cluster topic =
     (let key = pair_key E cluster topic in
      case cache_topic_details c key of
        Some v \<Rightarrow> (Inr v, c)
      | None \<Rightarrow>
          (case request E c [cluster, JStr ''topic'', topic] of
             (Inl e, c1) \<Rightarrow> (Inl e, c1)
           | (Inr data, c1) \<Rightarrow>
               (case py_get data ''offsets'' (JArr []) of
                  Inl e \<Rightarrow> (Inl e, c1)
                | Inr v \<Rightarrow> (Inr v,
                    if truthy v
                    then c1\<lparr>cache_topic_details := (cache_topic_details c1)(key \<mapsto> v)\<rparr>
                    else c1))))"

definition consumers :: "env \<Rightarrow> client \<Rightarrow> json \<Rightarrow> (error + json) \<times> client" where
  "consumers E c cluster =
     (case cache_lookup (cache_consumers c) cluster of
        Inl e \<Rightarrow> (Inl e, c)
      | Inr (Some v) \<Rightarrow> (Inr v, c)
      | Inr None \<Rightarrow>
          (case request E c [cluster, JStr ''consumer''] of
             (Inl e, c1) \<Rightarrow> (Inl e, c1)
           | (Inr data, c1) \<Rightarrow>
               (case py_get data ''consumers'' (JArr []) of
                  Inl e \<Rightarrow> (Inl e, c1)
                | Inr v \<Rightarrow> (Inr v,
                    if truthy v
                    then c1\<lparr>cache_consumers := cache_store (cache_consumers c1) cluster v\<rparr>
                    else c1))))"

definition consumer_details :: "env \<Rightarrow> client \<Rightarrow> json \<Rightarrow> json \<Rightarrow> (error + json) \<times> client" where
  "consumer_details E c cluster consumer =
     (let key = pair_key E cluster consumer in
      case cache_consumer_details c key of
        Some v \<Rightarrow> (Inr v, c)
      | None \<Rightarrow>
          (case request E c [cluster, JStr ''consumer'', consumer] of
             (Inl e, c1) \<Rightarrow> (Inl e, c1)
           | (Inr data, c1) \<Rightarrow>
               (case py_get data ''topics'' (JObj []) of
                  Inl e \<Rightarrow> (Inl e, c1)
                | Inr v \<Rightarrow> (Inr v,
                    if truthy v
                    then c1\<lparr>cache_consumer_details := (cache_consumer_details c1)(key \<mapsto> v)\<rparr>
                    else c1))))"

definition consumer_status :: "env \<Rightarrow> client \<Rightarrow> json \<Rightarrow> json \<Rightarrow> (error + json) \<times> client" where
  "consumer_status E c cluster consumer =
     (let key = pair_key E cluster consumer in
      case cache_consumer_status c key of
        Some v \<Rightarrow> (Inr v, c)
      | None \<Rightarrow>
          (case request E c [cluster, JStr ''consumer'', consumer, JStr ''lag''] of
             (Inl e, c1) \<Rightarrow> (Inl e, c1)
           | (Inr data, c1) \<Rightarrow>
               (case py_get data ''status'' (JObj []) of
                  Inl e \<Rightarrow> (Inl e, c1)
                | Inr v \<Rightarrow> (Inr v,
                    if truthy v
                    then c1\<lparr>cache_consumer_status := (cache_consumer_status c1)(key \<mapsto> v)\<rparr>
                    else c1))))"

section \<open>Filters\<close>

text \<open>
  \<^verbatim>\<open>not self.filter_topic\<close> holds for \<^verbatim>\<open>None\<close> and for the empty string.
\<close>

definition no_filter :: "string option \<Rightarrow> bool" where
  "no_filter f = (case f of None \<Rightarrow> True | Some p \<Rightarrow> p = [])"

definition match_topic :: "env \<Rightarrow> client \<Rightarrow> json \<Rightarrow> error + bool" where
  "match_topic E c topic =
     (if no_filter (filter_topic c) then Inr True
      else if \<not> truthy topic then Inr False
      else re_match E (the (filter_topic c)) topic)"

definition match_consumer :: "env \<Rightarrow> client \<Rightarrow> json \<Rightarrow> error + bool" where
  "match_consumer E c consumer =
     (if no_filter (filter_consumer c) then Inr True
      else if \<not> truthy consumer then Inr False
      else re_match E (the (filter_consumer c)) consumer)"

section \<open>Partition statistics\<close>

record partition_stats =
  ps_topic :: json
  ps_lag :: json
  ps_offset :: json
  ps_timestamp :: json
  ps_status :: json
  ps_owner :: json
  ps_partition :: json

definition get_partition_stats :: "json \<Rightarrow> error + partition_stats" where
  "get_partition_stats partition_data =
     (case partition_data of
        JObj kvs \<Rightarrow>
          (let topic = dict_get kvs ''topic'' (JStr ''?'');
               end0 = dict_get kvs ''end'' (JObj []);
               end1 = (case end0 of JObj e \<Rightarrow> e | _ \<Rightarrow> []);
               lag = (if dict_has kvs ''current_lag'' then dict_get kvs ''current_lag'' (JInt 0)
                      else dict_get end1 ''lag'' (JInt 0));
               offset = dict_get end1 ''offset'' (JInt 0);
               timestamp = dict_get end1 ''timestamp'' (JInt 0);
               status = dict_get kvs ''status'' (JStr ''?'');
               owner = dict_get kvs ''owner'' (JStr ''?'');
               partition = dict_get kvs ''partition'' (JStr ''?'')
           in Inr \<lparr> ps_topic = topic, ps_lag = lag, ps_offset = offset,
                    ps_timestamp = timestamp, ps_status = status, ps_owner = owner,
                    ps_partition = partition \<rparr>)
      | _ \<Rightarrow> Inl AttributeError)"

section \<open>Comparisons, maximum and minimum\<close>

text \<open>
  \<^verbatim>\<open>a > b\<close>: numbers (a bool counts as 0 or 1) compare by value, strings by code
  points, lists by the environment; every other pair raises \<open>TypeError\<close>.
\<close>

definition num_of :: "json \<Rightarrow> int option" where
  "num_of v = (case v of JInt n \<Rightarrow> Some n | JBool b \<Rightarrow> Some (if b then 1 else 0) | _ \<Rightarrow> None)"

definition py_gt :: "env \<Rightarrow> json \<Rightarrow> json \<Rightarrow> error + bool" where
  "py_gt E a b =
     (case (num_of a, num_of b) of
        (Some x, Some y) \<Rightarrow> Inr (y < x)
      | _ \<Rightarrow>
          (case (a, b) of
             (JStr s, JStr t) \<Rightarrow> Inr (t < s)
           | (JArr xs, JArr ys) \<Rightarrow> list_gt E xs ys
           | _ \<Rightarrow> Inl TypeError))"

definition py_lt :: "env \<Rightarrow> json \<Rightarrow> json \<Rightarrow> error + bool" where
  "py_lt E a b = py_gt E b a"

text \<open>
  \<^verbatim>\<open>max(xs)\<close> keeps the first item and replaces it by each later item that is greater;
  \<^verbatim>\<open>min(xs)\<close> likewise with less. Both raise \<open>ValueError\<close> on an empty list.
\<close>

fun max_loop :: "env \<Rightarrow> json \<Rightarrow> json list \<Rightarrow> error + json" where
  "max_loop E m [] = Inr m"
| "max_loop E m (x # xs) =
     (case py_gt E x m of Inl e \<Rightarrow> Inl e | Inr b \<Rightarrow> max_loop E (if b then x else m) xs)"

fun min_loop :: "env \<Rightarrow> json \<Rightarrow> json list \<Rightarrow> error + json" where
  "min_loop E m [] = Inr m"
| "min_loop E m (x # xs) =
     (case py_lt E x m of Inl e \<Rightarrow> Inl e | Inr b \<Rightarrow> min_loop E (if b then x else m) xs)"

definition py_max :: "env \<Rightarrow> json list \<Rightarrow> error + json" where
  "py_max E xs = (case xs of [] \<Rightarrow> Inl ValueError | x # rest \<Rightarrow> max_loop E x rest)"

definition py_min :: "env \<Rightarrow> json list \<Rightarrow> error + json" where
  "py_min E xs = (case xs of [] \<Rightarrow> Inl ValueError | x # rest \<Rightarrow> min_loop E x rest)"

text \<open>A list comprehension whose body can raise: the first exception ends it.\<close>

fun map_result :: "('a \<Rightarrow> error + 'b) \<Rightarrow> 'a list \<Rightarrow> error + 'b list" where
  "map_result f [] = Inr []"
| "map_result f (x # xs) =
     (case f x of
        Inl e \<Rightarrow> Inl e
      | Inr y \<Rightarrow> (case map_result f xs of Inl e \<Rightarrow> Inl e | Inr ys \<Rightarrow> Inr (y # ys)))"

section \<open>Tables\<close>

text \<open>
  \<^verbatim>\<open>PrettyTable\<close> is a library. Its \<^verbatim>\<open>add_row\<close> refuses a row of the wrong length.
  Its \<^verbatim>\<open>get_string(sortby=f)\<close> puts the cell of column \<open>f\<close> in front of every row,
  sorts these lists with \<^verbatim>\<open>list.sort\<close>, removes the cell again and draws the rows.
  Two lists compare by their first differing items. Where every two rows can be compared
  and the compared cells are integers or strings, the sorted list is the one an insertion
  sort gives. In every other case, which pairs Python's sort compares, and so whether it
  raises, is left to the environment (\<open>sort_mixed\<close>), as is the drawing (\<open>draw\<close>).
\<close>

definition add_row :: "table \<Rightarrow> row \<Rightarrow> error + table" where
  "add_row t r =
     (if length r = length (field_names t) then Inr (t\<lparr>rows := rows t @ [r]\<rparr>)
      else Inl TableError)"

fun cell_comparable :: "json \<Rightarrow> json \<Rightarrow> bool" where
  "cell_comparable (JInt a) (JInt b) = True"
| "cell_comparable (JStr a) (JStr b) = True"
| "cell_comparable a b = False"

fun cell_lt :: "json \<Rightarrow> json \<Rightarrow> bool" where
  "cell_lt (JInt a) (JInt b) = (a < b)"
| "cell_lt (JStr a) (JStr b) = (a < b)"
| "cell_lt a b = False"

fun row_comparable :: "row \<Rightarrow> row \<Rightarrow> bool" where
  "row_comparable (x # xs) (y # ys) =
     (cell_comparable x y \<and> (if x = y then row_comparable xs ys else True))"
| "row_comparable xs ys = True"

fun row_lt :: "row \<Rightarrow> row \<Rightarrow> bool" where
  "row_lt (x # xs) (y # ys) = (if x = y then row_lt xs ys else cell_lt x y)"
| "row_lt [] (y # ys) = True"
| "row_lt xs [] = False"

fun insert_row :: "row \<Rightarrow> row list \<Rightarrow> row list" where
  "insert_row r [] = [r]"
| "insert_row r (s # ss) = (if row_lt s r then s # insert_row r ss else r # s # ss)"

definition sort_rows :: "row list \<Rightarrow> row list" where
  "sort_rows rs = foldr insert_row rs []"

fun index_of :: "string \<Rightarrow> string list \<Rightarrow> nat" where
  "index_of f [] = 0"
| "index_of f (g # gs) = (if f = g then 0 else Suc (index_of f gs))"

definition get_rows :: "env \<Rightarrow> table \<Rightarrow> string option \<Rightarrow> error + row list" where
  "get_rows E t sortby =
     (case sortby of
        None \<Rightarrow> Inr (rows t)
      | Some f \<Rightarrow>
          if f \<notin> set (field_names t) then Inl TableError
          else
            (let decorated = map (\<lambda>r. (r ! index_of f (field_names t)) # r) (rows t) in
             if list_all (\<lambda>a. list_all (row_comparable a) decorated) decorated
             then Inr (map tl (sort_rows decorated))
             else (case sort_mixed E decorated of
                     Inl e \<Rightarrow> Inl e
                   | Inr sorted_rows \<Rightarrow> Inr (map tl sorted_rows))))"

definition get_string :: "env \<Rightarrow> table \<Rightarrow> string option \<Rightarrow> error + string" where
  "get_string E t sortby =
     (case get_rows E t sortby of Inl e \<Rightarrow> Inl e | Inr rs \<Rightarrow> Inr (draw E (t\<lparr>rows := rs\<rparr>)))"

section \<open>The topic report\<close>





section \<open>The consumer report\<close>

text \<open>
  The body of the innermost loop of \<^verbatim>\<open>report_consumers\<close>: the row for one entry of
  the list that the consumer has for a topic. The cells are computed from left to right.
\<close>

definition detail_row ::
  "env \<Rightarrow> client \<Rightarrow> json \<Rightarrow> json \<Rightarrow> json \<Rightarrow> (error + row) \<times> client"
where
  "detail_row E c consumer topic detail =
     (case py_get detail ''owner'' (JStr ''?'') of
        Inl e \<Rightarrow> (Inl e, c)
      | Inr owner \<Rightarrow>
     (case py_get detail ''current-lag'' (JStr ''?'') of
        Inl e \<Rightarrow> (Inl e, c)
      | Inr lag \<Rightarrow>
     (case py_get detail ''offsets'' (JArr []) of
        Inl e \<Rightarrow> (Inl e, c)
      | Inr offset_data \<Rightarrow>
     (case py_iter offset_data of
        Inl e \<Rightarrow> (Inl e, c)
      | Inr entries \<Rightarrow>
     (case map_result (\<lambda>offset. py_get offset ''offset'' (JInt 0)) entries of
        Inl e \<Rightarrow> (Inl e, c)
      | Inr offsets \<Rightarrow>
     (case map_result (\<lambda>offset. py_get offset ''timestamp'' (JInt 0)) entries of
        Inl e \<Rightarrow> (Inl e, c)
      | Inr timestamps \<Rightarrow>
     (case py_max E offsets of
        Inl e \<Rightarrow> (Inl e, c)
      | Inr max_offset \<Rightarrow>
     (case py_min E offsets of
        Inl e \<Rightarrow> (Inl e, c)
      | Inr min_offset \<Rightarrow>
     (case py_max E timestamps of
        Inl e \<Rightarrow> (Inl e, c)
      | Inr max_timestamp \<Rightarrow>
     (case format_number E c lag of
        Inl e \<Rightarrow> (Inl e, c)
      | Inr lag_text \<Rightarrow>
     (case format_number E c min_offset of
        Inl e \<Rightarrow> (Inl e, c)
      | Inr min_text \<Rightarrow>
     (case format_number E c max_offset of
        Inl e \<Rightarrow> (Inl e, c)
      | Inr max_text \<Rightarrow>
     (case format_number E c max_timestamp of
        Inl e \<Rightarrow> (Inl e, c)
      | Inr timestamp_text \<Rightarrow>
     (case timestamp_to_date E max_timestamp of
        Inl e \<Rightarrow> (Inl e, c)
      | Inr date_text \<Rightarrow>
     (case timestamp_to_age E c max_timestamp of
        (Inl e, c1) \<Rightarrow> (Inl e, c1)
      | (Inr age_text, c1) \<Rightarrow>
          (Inr [consumer, topic, owner, JStr lag_text, JStr min_text, JStr max_text,
                JStr timestamp_text, JStr date_text, JStr age_text], c1))))))))))))))))"

text \<open>\<^verbatim>\<open>for detail in details\<close>: one row for each entry.\<close>

fun details_loop ::
  "env \<Rightarrow> client \<Rightarrow> json \<Rightarrow> json \<Rightarrow> json list \<Rightarrow> table \<Rightarrow> (error + table) \<times> client"
where
  "details_loop E c consumer topic [] t = (Inr t, c)"
| "details_loop E c consumer topic (detail # rest) t =
     (case detail_row E c consumer topic detail of
        (Inl e, c1) \<Rightarrow> (Inl e, c1)
      | (Inr r, c1) \<Rightarrow>
          (case add_row t r of
             Inl e \<Rightarrow> (Inl e, c1)
           | Inr t1 \<Rightarrow> details_loop E c1 consumer topic rest t1))"

text \<open>\<^verbatim>\<open>d.items()\<close>: only a dict has the method.\<close>

definition py_items :: "json \<Rightarrow> error + (json \<times> json) list" where
  "py_items v = (case v of
       JObj kvs \<Rightarrow> Inr (map (\<lambda>kv. (JStr (fst kv), snd kv)) kvs)
     | _ \<Rightarrow> Inl AttributeError)"

text \<open>\<^verbatim>\<open>for topic, details in consumer_details.items()\<close>\<close>

fun consumer_topics_loop ::
  "env \<Rightarrow> client \<Rightarrow> json \<Rightarrow> (json \<times> json) list \<Rightarrow> table \<Rightarrow> (error + table) \<times> client"
where
  "consumer_topics_loop E c consumer [] t = (Inr t, c)"
| "consumer_topics_loop E c consumer ((topic, details) # rest) t =
     (case match_topic E c topic of
        Inl e \<Rightarrow> (Inl e, c)
      | Inr m \<Rightarrow>
          if \<not> m then consumer_topics_loop E c consumer rest t
          else
            (case py_iter details of
               Inl e \<Rightarrow> (Inl e, c)
             | Inr entries \<Rightarrow>
                 (case details_loop E c consumer topic entries t of
                    (Inl e, c1) \<Rightarrow> (Inl e, c1)
                  | (Inr t1, c1) \<Rightarrow> consumer_topics_loop E c1 consumer rest t1)))"

fun report_consumers_loop ::
  "env \<Rightarrow> client \<Rightarrow> json \<Rightarrow> json list \<Rightarrow> table \<Rightarrow> (error + table) \<times> client"
where
  "report_consumers_loop E c cluster [] t = (Inr t, c)"
| "report_consumers_loop E c cluster (consumer # rest) t =
     (case match_consumer E c consumer of
        Inl e \<Rightarrow> (Inl e, c)
      | Inr m \<Rightarrow>
          if \<not> m then report_consumers_loop E c cluster rest t
          else
            (case consumer_details E c cluster consumer of
               (Inl e, c1) \<Rightarrow> (Inl e, c1)
             | (Inr details_by_topic, c1) \<Rightarrow>
                 (case py_items details_by_topic of
                    Inl e \<Rightarrow> (Inl e, c1)
                  | Inr pairs \<Rightarrow>
                      (case consumer_topics_loop E c1 consumer pairs t of
                         (Inl e, c2) \<Rightarrow> (Inl e, c2)
                       | (Inr t1, c2) \<Rightarrow> report_consumers_loop E c2 cluster rest t1))))"

definition report_consumers_table :: "env \<Rightarrow> client \<Rightarrow> json \<Rightarrow> (error + table) \<times> client" where
  "report_consumers_table E c cluster =
     (let report = \<lparr> field_names =
            [''Consumer Group'', ''Topic'', ''Owner'', ''Current Lag'', ''Min Offset'',
             ''Max Offset'', ''Timestamp'', ''Date'', ''Age''],
          align = ''l'', rows = [] \<rparr>
      in case consumers E c cluster of
           (Inl e, c1) \<Rightarrow> (Inl e, c1)
         | (Inr names, c1) \<Rightarrow>
             (case py_iter names of
                Inl e \<Rightarrow> (Inl e, c1)
              | Inr cs \<Rightarrow> report_consumers_loop E c1 cluster cs report))"

definition report_consumers :: "env \<Rightarrow> client \<Rightarrow> json \<Rightarrow> (error + string) \<times> client" where
  "report_consumers E c cluster =
     (case report_consumers_table E c cluster of
        (Inl e, c1) \<Rightarrow> (Inl e, c1)
      | (Inr report, c1) \<Rightarrow>
          (case get_string E report (Some ''Consumer Group'') of
             Inl e \<Rightarrow> (Inl e, c1)
           | Inr s \<Rightarrow> (Inr (s @ [CHR 0x0A]), c1)))"

section \<open>The consumer status report\<close>

text \<open>
  \<^verbatim>\<open>'maxlag' in consumer_status\<close> and \<^verbatim>\<open>consumer_status['maxlag']\<close> on any value: a
  dict looks the key up, a string looks for the substring and a list for the item, and
  neither of these two can be indexed by a string; other values raise at once.
\<close>

fun is_substring :: "string \<Rightarrow> string \<Rightarrow> bool" where
  "is_substring p [] = (p = [])"
| "is_substring p (ch # cs) = (take (length p) (ch # cs) = p \<or> is_substring p cs)"

definition py_contains :: "json \<Rightarrow> string \<Rightarrow> error + bool" where
  "py_contains x k = (case x of
       JObj kvs \<Rightarrow> Inr (dict_has kvs k)
     | JStr s \<Rightarrow> Inr (is_substring k s)
     | JArr xs \<Rightarrow> Inr (List.member xs (JStr k))
     | _ \<Rightarrow> Inl TypeError)"

definition py_index :: "json \<Rightarrow> string \<Rightarrow> error + json" where
  "py_index x k = (case x of
       JObj kvs \<Rightarrow> (case map_of kvs k of None \<Rightarrow> Inl KeyError | Some v \<Rightarrow> Inr v)
     | _ \<Rightarrow> Inl TypeError)"

text \<open>The lag of the summary row: that of the \<^verbatim>\<open>maxlag\<close> record if there is one.\<close>

definition maxlag_lag :: "json \<Rightarrow> error + json" where
  "maxlag_lag status_data =
     (case py_contains status_data ''maxlag'' of
        Inl e \<Rightarrow> Inl e
      | Inr present \<Rightarrow>
          if \<not> present then Inr (JInt 0)
          else
            (case py_index status_data ''maxlag'' of
               Inl e \<Rightarrow> Inl e
             | Inr maxlag \<Rightarrow>
                 if \<not> truthy maxlag then Inr (JInt 0)
                 else
                   (case get_partition_stats maxlag of
                      Inl e \<Rightarrow> Inl e
                    | Inr maxlag_stats \<Rightarrow> Inr (ps_lag maxlag_stats))))"

text \<open>
  Keys of a dict and members of a set: a list or a dict cannot be hashed, and
  \<^verbatim>\<open>True\<close> is the same key as \<^verbatim>\<open>1\<close>. The dict \<^verbatim>\<open>topics\<close> is an association list
  in insertion order, the set \<^verbatim>\<open>owners\<close> a list without repetition.
\<close>

definition hashable :: "json \<Rightarrow> bool" where
  "hashable v = (case v of JArr xs \<Rightarrow> False | JObj kvs \<Rightarrow> False | _ \<Rightarrow> True)"

definition key_eq :: "json \<Rightarrow> json \<Rightarrow> bool" where
  "key_eq a b = (case (num_of a, num_of b) of (Some x, Some y) \<Rightarrow> x = y | _ \<Rightarrow> a = b)"

fun tally :: "json \<Rightarrow> (json \<times> nat) list \<Rightarrow> (json \<times> nat) list" where
  "tally k [] = [(k, 1)]"
| "tally k ((k', n) # rest) =
     (if key_eq k k' then (k', Suc n) # rest else (k', n) # tally k rest)"

fun set_add :: "json \<Rightarrow> json list \<Rightarrow> json list" where
  "set_add v [] = [v]"
| "set_add v (w # ws) = (if key_eq v w then w # ws else w # set_add v ws)"

record summary =
  topic_counts :: "(json \<times> nat) list"
  owners :: "json list"
  max_offset :: json
  max_timestamp :: json

text \<open>One turn of the loop over the partitions of a consumer.\<close>

definition partition_step :: "env \<Rightarrow> client \<Rightarrow> json \<Rightarrow> summary \<Rightarrow> error + summary" where
  "partition_step E c partition_data a =
     (case get_partition_stats partition_data of
        Inl e \<Rightarrow> Inl e
      | Inr partition_stats \<Rightarrow>
          (case match_topic E c (ps_topic partition_stats) of
             Inl e \<Rightarrow> Inl e
           | Inr m \<Rightarrow>
               if \<not> m then Inr a
               else
                 (case py_gt E (ps_offset partition_stats) (max_offset a) of
                    Inl e \<Rightarrow> Inl e
                  | Inr g1 \<Rightarrow>
                      (case py_gt E (ps_timestamp partition_stats) (max_timestamp a) of
                         Inl e \<Rightarrow> Inl e
                       | Inr g2 \<Rightarrow>
                           if truthy (ps_topic partition_stats)
                              \<and> \<not> hashable (ps_topic partition_stats) then Inl TypeError
                           else if truthy (ps_owner partition_stats)
                              \<and> \<not> hashable (ps_owner partition_stats) then Inl TypeError
                           else Inr \<lparr>
                             topic_counts =
                               (if truthy (ps_topic partition_stats)
                                then tally (ps_topic partition_stats) (topic_counts a)
                                else topic_counts a),
                             owners =
                               (if truthy (ps_owner partition_stats)
                                then set_add (ps_owner partition_stats) (owners a)
                                else owners a),
                             max_offset =
                               (if g1 then ps_offset partition_stats else max_offset a),
                             max_timestamp =
                               (if g2 then ps_timestamp partition_stats
                                else max_timestamp a) \<rparr>))))"

fun partitions_loop :: "env \<Rightarrow> client \<Rightarrow> json list \<Rightarrow> summary \<Rightarrow> error + summary" where
  "partitions_loop E c [] a = Inr a"
| "partitions_loop E c (partition_data # rest) a =
     (case partition_step E c partition_data a of
        Inl e \<Rightarrow> Inl e
      | Inr a1 \<Rightarrow> partitions_loop E c rest a1)"

text \<open>
  \<^verbatim>\<open>','.join(sorted(list(owners)))\<close>: members that are all strings are sorted and
  joined; a member that is no string makes the sort or the join raise \<open>TypeError\<close>.
\<close>

definition owners_string :: "json list \<Rightarrow> error + string" where
  "owners_string os =
     (if list_all is_JStr os then Inr (join '','' (sort (map str_of os))) else Inl TypeError)"

text \<open>
  The topics column: the items of the dict sorted by key and drawn as
  \<^verbatim>\<open>name[count]\<close>. The keys are distinct; strings and numbers cannot be compared.
\<close>

definition topic_text :: "env \<Rightarrow> json \<times> nat \<Rightarrow> string" where
  "topic_text E item = fmt E (fst item) @ ''['' @ py_str_int (int (snd item)) @ '']''"

definition topics_string :: "env \<Rightarrow> (json \<times> nat) list \<Rightarrow> error + string" where
  "topics_string E items =
     (if list_all (\<lambda>item. is_JStr (fst item)) items
      then Inr (join '','' (map (topic_text E) (sort_key (\<lambda>item. str_of (fst item)) items)))
      else if list_all (\<lambda>item. num_of (fst item) \<noteq> None) items
      then Inr (join '','' (map (topic_text E) (sort_key (\<lambda>item. the (num_of (fst item))) items)))
      else Inl TypeError)"

text \<open>
  The six cells that both forms of the row share, computed in the order of the source:
  four numbers, then date and age of the greatest timestamp.
\<close>

definition status_cells ::
  "env \<Rightarrow> client \<Rightarrow> json \<Rightarrow> json \<Rightarrow> json \<Rightarrow> json \<Rightarrow> (error + row) \<times> client"
where
  "status_cells E c lag total_lag offset timestamp =
     (case format_number E c lag of
        Inl e \<Rightarrow> (Inl e, c)
      | Inr lag_text \<Rightarrow>
          (case format_number E c total_lag of
             Inl e \<Rightarrow> (Inl e, c)
           | Inr total_text \<Rightarrow>
               (case format_number E c offset of
                  Inl e \<Rightarrow> (Inl e, c)
                | Inr offset_text \<Rightarrow>
                    (case format_number E c timestamp of
                       Inl e \<Rightarrow> (Inl e, c)
                     | Inr timestamp_text \<Rightarrow>
                         (case timestamp_to_date E timestamp of
                            Inl e \<Rightarrow> (Inl e, c)
                          | Inr date_text \<Rightarrow>
                              (case timestamp_to_age E c timestamp of
                                 (Inl e, c1) \<Rightarrow> (Inl e, c1)
                               | (Inr age_text, c1) \<Rightarrow>
                                   (Inr [JStr lag_text, JStr total_text, JStr offset_text,
                                         JStr timestamp_text, JStr date_text, JStr age_text],
                                    c1)))))))"

text \<open>The body of the loop of \<^verbatim>\<open>report_consumer_status\<close> for one consumer.\<close>

definition status_row :: "env \<Rightarrow> client \<Rightarrow> json \<Rightarrow> json \<Rightarrow> (error + row) \<times> client" where
  "status_row E c consumer status_data =
     (case maxlag_lag status_data of
        Inl e \<Rightarrow> (Inl e, c)
      | Inr lag \<Rightarrow>
     (case py_get status_data ''status'' (JStr ''?'') of
        Inl e \<Rightarrow> (Inl e, c)
      | Inr status \<Rightarrow>
     (case py_get status_data ''totallag'' (JInt 0) of
        Inl e \<Rightarrow> (Inl e, c)
      | Inr total_lag \<Rightarrow>
     (case py_get status_data ''partitions'' (JArr []) of
        Inl e \<Rightarrow> (Inl e, c)
      | Inr partitions \<Rightarrow>
     (case py_iter partitions of
        Inl e \<Rightarrow> (Inl e, c)
      | Inr items \<Rightarrow>
     (case partitions_loop E c items
             \<lparr> topic_counts = [], owners = [], max_offset = JInt 0, max_timestamp = JInt 0 \<rparr> of
        Inl e \<Rightarrow> (Inl e, c)
      | Inr a \<Rightarrow>
          if verbose c then
            (case owners_string (owners a) of
               Inl e \<Rightarrow> (Inl e, c)
             | Inr owners_text \<Rightarrow>
                 (case topics_string E (topic_counts a) of
                    Inl e \<Rightarrow> (Inl e, c)
                  | Inr topics_text \<Rightarrow>
                      (case status_cells E c lag total_lag (max_offset a) (max_timestamp a) of
                         (Inl e, c1) \<Rightarrow> (Inl e, c1)
                       | (Inr cells, c1) \<Rightarrow>
                           (Inr ([consumer, status] @ cells
                                 @ [JStr owners_text, JStr topics_text]), c1))))
          else
            (case status_cells E c lag total_lag (max_offset a) (max_timestamp a) of
               (Inl e, c1) \<Rightarrow> (Inl e, c1)
             | (Inr cells, c1) \<Rightarrow> (Inr ([consumer, status] @ cells), c1))))))))"

fun report_consumer_status_loop ::
  "env \<Rightarrow> client \<Rightarrow> json \<Rightarrow> json list \<Rightarrow> table \<Rightarrow> (error + table) \<times> client"
where
  "report_consumer_status_loop E c cluster [] t = (Inr t, c)"
| "report_consumer_status_loop E c cluster (consumer # rest) t =
     (case match_consumer E c consumer of
        Inl e \<Rightarrow> (Inl e, c)
      | Inr m \<Rightarrow>
          if \<not> m then report_consumer_status_loop E c cluster rest t
          else
            (case consumer_status E c cluster consumer of
               (Inl e, c1) \<Rightarrow> (Inl e, c1)
             | (Inr status, c1) \<Rightarrow>
                 (case status_row E c1 consumer status of
                    (Inl e, c2) \<Rightarrow> (Inl e, c2)
                  | (Inr r, c2) \<Rightarrow>
                      (case add_row t r of
                         Inl e \<Rightarrow> (Inl e, c2)
                       | Inr t1 \<Rightarrow> report_consumer_status_loop E c2 cluster rest t1))))"

definition report_consumer_status_table ::
  "env \<Rightarrow> client \<Rightarrow> json \<Rightarrow> (error + table) \<times> client"
where
  "report_consumer_status_table E c cluster =
     (let report = \<lparr> field_names =
            (if verbose c
             then [''Consumer Group'', ''Status'', ''Current Lag'', ''Total Lag'', ''Offset'',
                   ''Timestamp'', ''Date'', ''Age'', ''Owners'', ''Topics'']
             else [''Consumer Group'', ''Status'', ''Current Lag'', ''Total Lag'', ''Offset'',
                   ''Timestamp'', ''Date'', ''Age'']),
          align = ''l'', rows = [] \<rparr>
      in case consumers E c cluster of
           (Inl e, c1) \<Rightarrow> (Inl e, c1)
         | (Inr names, c1) \<Rightarrow>
             (case py_iter names of
                Inl e \<Rightarrow> (Inl e, c1)
              | Inr cs \<Rightarrow> report_consumer_status_loop E c1 cluster cs report))"

definition report_consumer_status ::
  "env \<Rightarrow> client \<Rightarrow> json \<Rightarrow> (error + string) \<times> client"
where
  "report_consumer_status E c cluster =
     (case report_consumer_status_table E c cluster of
        (Inl e, c1) \<Rightarrow> (Inl e, c1)
      | (Inr report, c1) \<Rightarrow>
          (case get_string E report (Some ''Consumer Group'') of
             Inl e \<Rightarrow> (Inl e, c1)
           | Inr s \<Rightarrow> (Inr (s @ [CHR 0x0A]), c1)))"

section \<open>Runs of accessor calls\<close>

text \<open>
  The seven accessors are the only code that writes a cache. A run of the client, as far
  as the caches go, is a sequence of accessor calls; \<open>do_calls\<close> gives the client after
  such a run, whatever the calls returned or raised.
\<close>

datatype call =
    CClusters
  | CClusterDetails json
  | CTopics json
  | CTopicDetails json json
  | CConsumers json
  | CConsumerDetails json json
  | CConsumerStatus json json

fun do_call :: "env \<Rightarrow> client \<Rightarrow> call \<Rightarrow> (error + json) \<times> client" where
  "do_call E c CClusters = clusters E c"
| "do_call E c (CClusterDetails cluster) = cluster_details E c cluster"
| "do_call E c (CTopics cluster) = topics E c cluster"
| "do_call E c (CTopicDetails cluster topic) = topic_details E c cluster topic"
| "do_call E c (CConsumers cluster) = consumers E c cluster"
| "do_call E c (CConsumerDetails cluster consumer) = consumer_details E c cluster consumer"
| "do_call E c (CConsumerStatus cluster consumer) = consumer_status E c cluster consumer"

fun do_calls :: "env \<Rightarrow> client \<Rightarrow> call list \<Rightarrow> client" where
  "do_calls E c [] = c"
| "do_calls E c (k # ks) = do_calls E (snd (do_call E c k)) ks"

text \<open>
  The cache that a call uses and the key it computes (\<^verbatim>\<open>key = cluster\<close>, or the
  formatted pair; \<^verbatim>\<open>_clusters\<close> is a single slot), the arguments it hands to
  \<^verbatim>\<open>request\<close>, and the value that a cache holds under a key.
\<close>

datatype cache_name =
    Clusters
  | ClusterDetails
  | Topics
  | TopicDetails
  | Consumers
  | ConsumerDetails
  | ConsumerStatus

fun call_cache :: "call \<Rightarrow> cache_name" where
  "call_cache CClusters = Clusters"
| "call_cache (CClusterDetails cluster) = ClusterDetails"
| "call_cache (CTopics cluster) = Topics"
| "call_cache (CTopicDetails cluster topic) = TopicDetails"
| "call_cache (CConsumers cluster) = Consumers"
| "call_cache (CConsumerDetails cluster consumer) = ConsumerDetails"
| "call_cache (CConsumerStatus cluster consumer) = ConsumerStatus"

fun call_key :: "env \<Rightarrow> call \<Rightarrow> json" where
  "call_key E CClusters = JNull"
| "call_key E (CClusterDetails cluster) = cluster"
| "call_key E (CTopics cluster) = cluster"
| "call_key E (CTopicDetails cluster topic) = JStr (pair_key E cluster topic)"
| "call_key E (CConsumers cluster) = cluster"
| "call_key E (CConsumerDetails cluster consumer) = JStr (pair_key E cluster consumer)"
| "call_key E (CConsumerStatus cluster consumer) = JStr (pair_key E cluster consumer)"

fun call_paths :: "call \<Rightarrow> json list" where
  "call_paths CClusters = []"
| "call_paths (CClusterDetails cluster) = [cluster]"
| "call_paths (CTopics cluster) = [cluster, JStr ''topic'']"
| "call_paths (CTopicDetails cluster topic) = [cluster, JStr ''topic'', topic]"
| "call_paths (CConsumers cluster) = [cluster, JStr ''consumer'']"
| "call_paths (CConsumerDetails cluster consumer) = [cluster, JStr ''consumer'', consumer]"
| "call_paths (CConsumerStatus cluster consumer) =
     [cluster, JStr ''consumer'', consumer, JStr ''lag'']"

definition dict_at :: "(string \<rightharpoonup> json) \<Rightarrow> json \<Rightarrow> json option" where
  "dict_at m key = (case key of JStr k \<Rightarrow> m k | _ \<Rightarrow> None)"

fun cached :: "client \<Rightarrow> cache_name \<Rightarrow> json \<Rightarrow> json option" where
  "cached c Clusters key = (if truthy (cache_clusters c) then Some (cache_clusters c) else None)"
| "cached c ClusterDetails key = dict_at (cache_cluster_details c) key"
| "cached c Topics key = dict_at (cache_topics c) key"
| "cached c TopicDetails key = dict_at (cache_topic_details c) key"
| "cached c Consumers key = dict_at (cache_consumers c) key"
| "cached c ConsumerDetails key = dict_at (cache_consumer_details c) key"
| "cached c ConsumerStatus key = dict_at (cache_consumer_status c) key"

text \<open>
  The response cache as the specification words it: \<open>getOrFetch\<close> looks the key up,
  and on a miss calls the gateway, extracts the named field of the envelope, stores the
  value when it is truthy, and returns it. \<open>lookup\<close> and \<open>store\<close> name the test
  \<^verbatim>\<open>key in self._cache\<close> (\<^verbatim>\<open>if self._clusters\<close> for the cluster list) and the
  assignment \<^verbatim>\<open>self._cache[key] = value\<close> of each cache. The seven accessors above are
  shown to be instances of it before anything is proved about them.
\<close>

fun lookup :: "client \<Rightarrow> cache_name \<Rightarrow> json \<Rightarrow> error + json option" where
  "lookup c Clusters key = Inr (cached c Clusters key)"
| "lookup c ClusterDetails key = cache_lookup (cache_cluster_details c) key"
| "lookup c Topics key = cache_lookup (cache_topics c) key"
| "lookup c TopicDetails key = cache_lookup (cache_topic_details c) key"
| "lookup c Consumers key = cache_lookup (cache_consumers c) key"
| "lookup c ConsumerDetails key = cache_lookup (cache_consumer_details c) key"
| "lookup c ConsumerStatus key = cache_lookup (cache_consumer_status c) key"

fun store :: "client \<Rightarrow> cache_name \<Rightarrow> json \<Rightarrow> json \<Rightarrow> client" where
  "store c Clusters key v = c\<lparr>cache_clusters := v\<rparr>"
| "store c ClusterDetails key v =
     c\<lparr>cache_cluster_details := cache_store (cache_cluster_details c) key v\<rparr>"
| "store c Topics key v = c\<lparr>cache_topics := cache_store (cache_topics c) key v\<rparr>"
| "store c TopicDetails key v =
     c\<lparr>cache_topic_details := cache_store (cache_topic_details c) key v\<rparr>"
| "store c Consumers key v = c\<lparr>cache_consumers := cache_store (cache_consumers c) key v\<rparr>"
| "store c ConsumerDetails key v =
     c\<lparr>cache_consumer_details := cache_store (cache_consumer_details c) key v\<rparr>"
| "store c ConsumerStatus key v =
     c\<lparr>cache_consumer_status := cache_store (cache_consumer_status c) key v\<rparr>"

fun call_field :: "call \<Rightarrow> string" where
  "call_field CClusters = ''clusters''"
| "call_field (CClusterDetails cluster) = ''module''"
| "call_field (CTopics cluster) = ''topics''"
| "call_field (CTopicDetails cluster topic) = ''offsets''"
| "call_field (CConsumers cluster) = ''consumers''"
| "call_field (CConsumerDetails cluster consumer) = ''topics''"
| "call_field (CConsumerStatus cluster consumer) = ''status''"

fun call_default :: "call \<Rightarrow> json" where
  "call_default CClusters = JArr []"
| "call_default (CClusterDetails cluster) = JObj []"
| "call_default (CTopics cluster) = JArr []"
| "call_default (CTopicDetails cluster topic) = JArr []"
| "call_default (CConsumers cluster) = JArr []"
| "call_default (CConsumerDetails cluster consumer) = JObj []"
| "call_default (CConsumerStatus cluster consumer) = JObj []"

definition getOrFetch ::
  "env \<Rightarrow> client \<Rightarrow> cache_name \<Rightarrow> json \<Rightarrow> json list \<Rightarrow> string \<Rightarrow> json \<Rightarrow> (error + json) \<times> client"
where
  "getOrFetch E c nm key paths field dflt =
     (case lookup c nm key of
        Inl e \<Rightarrow> (Inl e, c)
      | Inr (Some v) \<Rightarrow> (Inr v, c)
      | Inr None \<Rightarrow>
          (case request E c paths of
             (Inl e, c1) \<Rightarrow> (Inl e, c1)
           | (Inr data, c1) \<Rightarrow>
               (case py_get data field dflt of
                  Inl e \<Rightarrow> (Inl e, c1)
                | Inr v \<Rightarrow> (Inr v, if truthy v then store c1 nm key v else c1))))"

section \<open>Example data\<close>

text \<open>
  A small environment for concrete runs: no server, patterns without metacharacters
  (so that \<^verbatim>\<open>re.match\<close> is the test for a literal prefix), fixed date and age texts,
  and of the Unicode database the no-break space and the fullwidth digits.
\<close>

definition demo_env :: env where
  "demo_env = \<lparr> gateway = (\<lambda>h a. Inl TransportError),
     re_match = (\<lambda>p v. case v of JStr s \<Rightarrow> Inr (take (length p) s = p) | _ \<Rightarrow> Inl TypeError),
     py_str = (\<lambda>v. []),
     uni_space = (\<lambda>cp. cp = [CHR 0xC2, CHR 0xA0]),
     uni_decimal = (\<lambda>cp. case cp of
         [a, b, d] \<Rightarrow>
           if a = CHR 0xEF \<and> b = CHR 0xBC \<and> 144 \<le> (of_char d :: nat) \<and> (of_char d :: nat) \<le> 153
           then Some (of_char d - 144) else None
       | _ \<Rightarrow> None),
     list_gt = (\<lambda>a b. Inl TypeError),
     date_str = (\<lambda>n. Inr ''date''),
     age_str = (\<lambda>k n. Inr ''age''),
     sort_mixed = (\<lambda>rs. Inl TypeError),
     draw = (\<lambda>t. []) \<rparr>"

definition demo_client :: client where
  "demo_client = init ''http://127.0.0.1:8000'' ''v3/kafka'' False False"

text \<open>The \<^verbatim>\<open>maxlag\<close> record of the test suite's consumer status response.\<close>

definition test_partition :: "(string \<times> json) list" where
  "test_partition =
     [(''complete'', JInt 1), (''current_lag'', JInt 0),
      (''end'', JObj [(''lag'', JInt 25), (''offset'', JInt 2542), (''timestamp'', JInt 1511780580382)]),
      (''owner'', JStr []), (''partition'', JInt 0),
      (''start'', JObj [(''lag'', JInt 20), (''offset'', JInt 2526), (''timestamp'', JInt 1511200836090)]),
      (''status'', JStr ''WARN''), (''topic'', JStr ''topicA'')]"

text \<open>
  The responses of the test suite (\<^verbatim>\<open>request_values\<close>), by address, with the two
  topics listed in reverse order and one consumer group. The test mocks \<^verbatim>\<open>request\<close>
  and raises \<open>RuntimeError\<close> for unknown arguments.
\<close>

definition test_gateway :: "json list list \<Rightarrow> string \<Rightarrow> error + json" where
  "test_gateway h a =
     (if a = ''http://127.0.0.1:8000/v3/kafka'' then
        Inr (JObj [(''error'', JBool False), (''message'', JStr ''cluster list returned''),
                   (''clusters'', JArr [JStr ''clustername1'', JStr ''clustername2''])])
      else if a = ''http://127.0.0.1:8000/v3/kafka/clustername1/topic'' then
        Inr (JObj [(''error'', JBool False), (''message'', JStr ''broker topic list returned''),
                   (''topics'', JArr [JStr ''topicB'', JStr ''topicA''])])
      else if a = ''http://127.0.0.1:8000/v3/kafka/clustername1/topic/topicA''
            \<or> a = ''http://127.0.0.1:8000/v3/kafka/clustername1/topic/topicB'' then
        Inr (JObj [(''error'', JBool False), (''message'', JStr ''broker topic offsets returned''),
                   (''offsets'', JArr [JInt 2290903, JInt 2898892, JInt 3902933, JInt 2328823])])
      else if a = ''http://127.0.0.1:8000/v3/kafka/clustername1/consumer'' then
        Inr (JObj [(''error'', JBool False), (''message'', JStr ''consumer list returned''),
                   (''consumers'', JArr [JStr ''group1''])])
      else if a = ''http://127.0.0.1:8000/v3/kafka/clustername1/consumer/group1/lag'' then
        Inr (JObj [(''error'', JBool False),
                   (''status'', JObj [(''cluster'', JStr ''clustername''),
                      (''group'', JStr ''groupname''), (''status'', JStr ''WARN''),
                      (''maxlag'', JObj test_partition),
                      (''partitions'', JArr [JObj test_partition])])])
      else Inl RuntimeError)"

definition test_env :: env where
  "test_env = demo_env\<lparr>gateway := test_gateway\<rparr>"

text \<open>A server whose envelopes carry no payload at all.\<close>

definition empty_env :: env where
  "empty_env = demo_env\<lparr>gateway := (\<lambda>h a. Inr (JObj [(''error'', JBool False)]))\<rparr>"




text \<open>
  A server with one consumer group, whose only topic has the one entry \<open>detail\<close>, and
  the entry of the test suite's consumer detail response.
\<close>

definition detail_gateway :: "json \<Rightarrow> json list list \<Rightarrow> string \<Rightarrow> error + json" where
  "detail_gateway detail h a =
     (if a = ''http://127.0.0.1:8000/v3/kafka/clustername1/consumer'' then
        Inr (JObj [(''error'', JBool False), (''message'', JStr ''consumer list returned''),
                   (''consumers'', JArr [JStr ''group1''])])
      else if a = ''http://127.0.0.1:8000/v3/kafka/clustername1/consumer/group1'' then
        Inr (JObj [(''error'', JBool False), (''message'', JStr ''consumer detail returned''),
                   (''topics'', JObj [(''ConsumedTopicName'', JArr [detail])])])
      else Inl RuntimeError)"

definition detail_env :: "json \<Rightarrow> env" where
  "detail_env detail = demo_env\<lparr>gateway := detail_gateway detail\<rparr>"

definition test_offsets :: json where
  "test_offsets = JArr
     [JObj [(''lag'', JInt 0), (''offset'', JInt 2526), (''timestamp'', JInt 1511200836090)],
      JObj [(''lag'', JInt 0), (''offset'', JInt 2527), (''timestamp'', JInt 1511321306786)]]"

definition test_detail :: json where
  "test_detail = JObj [(''current-lag'', JInt 0), (''offsets'', test_offsets), (''owner'', JStr [])]"


definition idle_status :: "(string \<times> json) list" where
  "idle_status =
     [(''status'', JStr ''OK''), (''totallag'', JInt 0),
      (''partitions'', JArr [JObj [(''topic'', JStr ''t'')]])]"

definition verbose_client :: client where
  "verbose_client = demo_client\<lparr>verbose := True\<rparr>"

section \<open>Properties of the formatters\<close>

lemma py_int_abc: "py_int E (JStr ''abc'') = Inl ValueError"
  by (simp add: py_int_def is_ascii_def parse_int_def strip_def is_space_def parse_nat_def
      is_digit_def)

lemma py_int_qmark: "py_int E (JStr ''?'') = Inl ValueError"
  by (simp add: py_int_def is_ascii_def parse_int_def strip_def is_space_def parse_nat_def
      is_digit_def)

lemma py_int_text: "py_int E (JStr '' +1_000 '') = Inr 1000"
  by (simp add: py_int_def is_ascii_def parse_int_def strip_def is_space_def parse_nat_def
      is_digit_def digit_val_def)

lemma py_int_separator: "py_int E (JStr [CHR 0x1C, CHR ''7'']) = Inl ValueError"
  by (simp add: py_int_def is_ascii_def parse_int_def strip_def is_space_def parse_nat_def
      is_digit_def)

lemma py_int_fullwidth:
  "py_int demo_env (JStr [CHR 0xEF, CHR 0xBC, CHR 0x91, CHR 0xEF, CHR 0xBC, CHR 0x92, CHR 0xC2, CHR 0xA0])
     = Inr 12"
  by code_simp

lemma digits_no_comma: "CHR '','' \<notin> set (digits_of n)"
proof (induction n rule: digits_of.induct)
  case (1 n)
  have d: "digit_char k \<noteq> CHR '',''" if "k < 10" for k
  proof -
    from that have "k \<in> {0,1,2,3,4,5,6,7,8,9}" by auto
    then show ?thesis by (auto simp: digit_char_def)
  qed
  show ?case
  proof (cases "n < 10")
    case True
    then show ?thesis by (simp add: digits_of.simps[of n] d[THEN not_sym])
  next
    case False
    with 1 show ?thesis by (simp add: digits_of.simps[of n] d[THEN not_sym])
  qed
qed

lemma filter_commas:
  "filter (\<lambda>ch. ch \<noteq> CHR '','') (commas s) = filter (\<lambda>ch. ch \<noteq> CHR '','') s"
proof (induction s rule: commas.induct)
  case (1 s)
  show ?case
  proof (cases "length s \<le> 3")
    case True
    then show ?thesis by (simp add: commas.simps[of s])
  next
    case False
    have "filter (\<lambda>ch. ch \<noteq> CHR '','') (commas s) =
        filter (\<lambda>ch. ch \<noteq> CHR '','') (take (length s - 3) s) @
        filter (\<lambda>ch. ch \<noteq> CHR '','') (drop (length s - 3) s)"
      using False 1 by (simp add: commas.simps[of s])
    also have "\<dots> = filter (\<lambda>ch. ch \<noteq> CHR '','') (take (length s - 3) s @ drop (length s - 3) s)"
      by (simp only: filter_append)
    finally show ?thesis by (simp only: append_take_drop_id)
  qed
qed

lemma filter_digits: "filter (\<lambda>ch. ch \<noteq> CHR '','') (digits_of n) = digits_of n"
  using digits_no_comma[of n] by (simp add: filter_id_conv) metis

lemma ungroup_format_comma:
  "filter (\<lambda>ch. ch \<noteq> CHR '','') (py_format_comma n) = py_str_int n"
  by (simp add: py_format_comma_def py_str_int_def filter_commas filter_digits)

lemma format_1234567_decimal: "py_format_comma 1234567 = ''1,234,567''"
  by (simp add: py_format_comma_def digits_of.simps commas.simps digit_char_def)

lemma format_1234567_plain: "py_str_int 1234567 = ''1234567''"
  by (simp add: py_str_int_def digits_of.simps digit_char_def)

text \<open>
  C8. For every integer \<open>n\<close>, \<open>format_number\<close> gives the comma-grouped text when the
  decimal mode is on and the plain decimal text when it is off; the grouped text is the
  plain one with commas put in; \<open>1234567\<close> gives \<^verbatim>\<open>1,234,567\<close> and \<^verbatim>\<open>1234567\<close>.
\<close>

theorem format_number_modes:
  "format_number E (c\<lparr>decimal := True\<rparr>) (JInt n) = Inr (py_format_comma n)
   \<and> format_number E (c\<lparr>decimal := False\<rparr>) (JInt n) = Inr (py_str_int n)
   \<and> filter (\<lambda>ch. ch \<noteq> CHR '','') (py_format_comma n) = py_str_int n
   \<and> format_number E (c\<lparr>decimal := True\<rparr>) (JInt 1234567) = Inr ''1,234,567''
   \<and> format_number E (c\<lparr>decimal := False\<rparr>) (JInt 1234567) = Inr ''1234567''"
  by (simp add: format_number_def py_int_def ungroup_format_comma
      format_1234567_decimal format_1234567_plain)

section \<open>Properties of the filters\<close>

text \<open>
  C5. \<open>match_topic\<close> and \<open>match_consumer\<close> answer true when no pattern is set, false
  when a non-empty pattern is set and the value is absent or empty, and otherwise what
  \<^verbatim>\<open>re.match\<close> answers for the pattern and the value, which is a match that starts at
  the beginning of the value.
\<close>

theorem match_filter_rules:
  "(filter_topic c = None \<longrightarrow> match_topic E c v = Inr True)
   \<and> (filter_consumer c = None \<longrightarrow> match_consumer E c v = Inr True)
   \<and> (filter_topic c = Some p \<and> p \<noteq> [] \<and> (v = JNull \<or> v = JStr []) \<longrightarrow>
        match_topic E c v = Inr False)
   \<and> (filter_consumer c = Some p \<and> p \<noteq> [] \<and> (v = JNull \<or> v = JStr []) \<longrightarrow>
        match_consumer E c v = Inr False)
   \<and> (filter_topic c = Some p \<and> p \<noteq> [] \<and> s \<noteq> [] \<longrightarrow>
        match_topic E c (JStr s) = re_match E p (JStr s))
   \<and> (filter_consumer c = Some p \<and> p \<noteq> [] \<and> s \<noteq> [] \<longrightarrow>
        match_consumer E c (JStr s) = re_match E p (JStr s))"
  by (auto simp: match_topic_def match_consumer_def no_filter_def)

theorem match_filter_rules_witness:
  "match_topic demo_env demo_client (JStr ''topicA'') = Inr True
   \<and> match_consumer demo_env demo_client (JStr ''group1'') = Inr True
   \<and> match_topic demo_env (demo_client\<lparr>filter_topic := Some ''topic''\<rparr>) (JStr []) = Inr False
   \<and> match_topic demo_env (demo_client\<lparr>filter_topic := Some ''topic''\<rparr>) JNull = Inr False
   \<and> match_consumer demo_env (demo_client\<lparr>filter_consumer := Some ''group''\<rparr>) (JStr []) = Inr False
   \<and> match_topic demo_env (demo_client\<lparr>filter_topic := Some ''topic''\<rparr>) (JStr ''topicA'') = Inr True
   \<and> match_consumer demo_env (demo_client\<lparr>filter_consumer := Some ''group''\<rparr>) (JStr ''other'') = Inr False"
  using match_filter_rules [where c = demo_client and E = demo_env and v = "JStr ''topicA''"
      and p = "''topic''" and s = "''topicA''"]
    match_filter_rules [where c = demo_client and E = demo_env and v = "JStr ''group1''"
      and p = "''topic''" and s = "''topicA''"]
    match_filter_rules [where c = "demo_client\<lparr>filter_topic := Some ''topic''\<rparr>" and E = demo_env
      and v = "JStr []" and p = "''topic''" and s = "''topicA''"]
    match_filter_rules [where c = "demo_client\<lparr>filter_topic := Some ''topic''\<rparr>" and E = demo_env
      and v = JNull and p = "''topic''" and s = "''topicA''"]
    match_filter_rules [where c = "demo_client\<lparr>filter_consumer := Some ''group''\<rparr>"
      and E = demo_env and v = "JStr []" and p = "''group''" and s = "''other''"]
  by (simp add: demo_client_def init_def demo_env_def)

text \<open>
  C9. The empty pattern counts as no filter: both functions answer true for every
  value, the empty and the absent one included.
\<close>

theorem empty_pattern_is_no_filter:
  "(filter_topic c = Some [] \<longrightarrow> match_topic E c v = Inr True)
   \<and> (filter_consumer c = Some [] \<longrightarrow> match_consumer E c v = Inr True)"
  by (simp add: match_topic_def match_consumer_def no_filter_def)

theorem empty_pattern_is_no_filter_witness:
  "match_topic demo_env (demo_client\<lparr>filter_topic := Some [], filter_consumer := Some []\<rparr>) (JStr [])
     = Inr True
   \<and> match_consumer demo_env (demo_client\<lparr>filter_topic := Some [], filter_consumer := Some []\<rparr>) JNull
     = Inr True"
  using empty_pattern_is_no_filter [where E = demo_env and v = "JStr []"
      and c = "demo_client\<lparr>filter_topic := Some [], filter_consumer := Some []\<rparr>"]
    empty_pattern_is_no_filter [where E = demo_env and v = JNull
      and c = "demo_client\<lparr>filter_topic := Some [], filter_consumer := Some []\<rparr>"]
  by simp

section \<open>Properties of the timestamp functions\<close>

text \<open>
  C3. The claim is that a timestamp that is no number gives \<^verbatim>\<open>'?'\<close>. In the code the
  handler catches \<open>RuntimeError\<close> only, and \<^verbatim>\<open>int\<close> raises \<open>ValueError\<close> or
  \<open>TypeError\<close>: both functions raise on \<^verbatim>\<open>'abc'\<close> and on \<^verbatim>\<open>None\<close>.
\<close>

theorem timestamp_invalid_raises:
  "timestamp_to_date E (JStr ''abc'') = Inl ValueError
   \<and> fst (timestamp_to_age E c (JStr ''abc'')) = Inl ValueError
   \<and> timestamp_to_date E JNull = Inl TypeError
   \<and> fst (timestamp_to_age E c JNull) = Inl TypeError"
  by (simp add: timestamp_to_date_def timestamp_to_age_def py_int_abc except_RuntimeError_def
      py_int_def [of E JNull])

section \<open>Properties of the partition statistics\<close>

text \<open>
  C2, as stated, asks for lag 0 when \<^verbatim>\<open>current_lag\<close> is null. The code tests the
  presence of the key and then takes the value as it is, so a null stays null.
\<close>

theorem get_partition_stats_null_lag_counterexample:
  "get_partition_stats (JObj [(''current_lag'', JNull), (''end'', JObj [(''lag'', JInt 25)])]) =
     Inr \<lparr> ps_topic = JStr ''?'', ps_lag = JNull, ps_offset = JInt 0, ps_timestamp = JInt 0,
           ps_status = JStr ''?'', ps_owner = JStr ''?'', ps_partition = JStr ''?'' \<rparr>
   \<and> JNull \<noteq> JInt 0"
  by (simp add: get_partition_stats_def dict_get_def dict_has_def)

text \<open>
  C2, amended. For every JSON object, the lag is the value of \<^verbatim>\<open>current_lag\<close> whenever
  that key is present (also when \<^verbatim>\<open>end.lag\<close> is present, and also when the value is
  null); otherwise it is \<^verbatim>\<open>end.lag\<close>, and 0 when \<^verbatim>\<open>end\<close> is no object or has no
  \<^verbatim>\<open>lag\<close>.
\<close>

theorem get_partition_stats_lag:
  "\<exists>ps. get_partition_stats (JObj kvs) = Inr ps \<and> ps_lag ps =
     (case map_of kvs ''current_lag'' of
        Some v \<Rightarrow> v
      | None \<Rightarrow>
          (case map_of kvs ''end'' of
             Some (JObj e) \<Rightarrow> (case map_of e ''lag'' of Some l \<Rightarrow> l | None \<Rightarrow> JInt 0)
           | _ \<Rightarrow> JInt 0))"
  by (simp add: get_partition_stats_def dict_get_def dict_has_def Let_def
      split: option.splits json.splits)

theorem get_partition_stats_lag_witness:
  "\<exists>ps. get_partition_stats (JObj test_partition) = Inr ps \<and> ps_lag ps = JInt 0"
  using get_partition_stats_lag [of test_partition]
  by (simp add: test_partition_def)

section \<open>Properties of the cache accessors\<close>

text \<open>Each accessor is the instance of \<open>getOrFetch\<close> for its cache, key, path and field.\<close>

lemma do_call_getOrFetch:
  "do_call E c k =
     getOrFetch E c (call_cache k) (call_key E k) (call_paths k) (call_field k) (call_default k)"
proof (cases k)
  case CClusters
  then show ?thesis
    by (simp add: getOrFetch_def clusters_def cong: sum.case_cong option.case_cong prod.case_cong if_cong)
next
  case (CClusterDetails x)
  then show ?thesis
    by (simp add: getOrFetch_def cluster_details_def cong: sum.case_cong option.case_cong prod.case_cong if_cong)
next
  case (CTopics x)
  then show ?thesis
    by (simp add: getOrFetch_def topics_def cong: sum.case_cong option.case_cong prod.case_cong if_cong)
next
  case (CTopicDetails x y)
  then show ?thesis
    by (simp add: getOrFetch_def topic_details_def cache_lookup_def cache_store_def Let_def
        cong: sum.case_cong option.case_cong prod.case_cong if_cong)
next
  case (CConsumers x)
  then show ?thesis
    by (simp add: getOrFetch_def consumers_def cong: sum.case_cong option.case_cong prod.case_cong if_cong)
next
  case (CConsumerDetails x y)
  then show ?thesis
    by (simp add: getOrFetch_def consumer_details_def cache_lookup_def cache_store_def Let_def
        cong: sum.case_cong option.case_cong prod.case_cong if_cong)
next
  case (CConsumerStatus x y)
  then show ?thesis
    by (simp add: getOrFetch_def consumer_status_def cache_lookup_def cache_store_def Let_def
        cong: sum.case_cong option.case_cong prod.case_cong if_cong)
qed



lemma request_effect:
  "request E c paths = (r, c1) \<Longrightarrow>
     c1 = c\<lparr>calls := calls c @ [paths], stdout := stdout c1\<rparr>"
  by (auto simp: request_def Let_def output_msg_def split: sum.splits if_splits)

lemma request_calls: "calls (snd (request E c paths)) = calls c @ [paths]"
  by (auto simp: request_def Let_def output_msg_def split: sum.splits if_splits)

lemma request_ok_paths:
  "request E c paths = (Inr d, c1) \<Longrightarrow> list_all is_JStr paths"
  by (auto simp: request_def Let_def address_def split: sum.splits if_splits)

lemma cached_request:
  "request E c paths = (r, c1) \<Longrightarrow> cached c1 nm key = cached c nm key"
  by (drule request_effect, cases nm) (erule ssubst, simp)+

lemma lookup_request:
  "request E c paths = (r, c1) \<Longrightarrow> lookup c1 nm key = lookup c nm key"
  by (drule request_effect, cases nm) (erule ssubst, simp)+

lemma lookup_Some: "lookup c nm key = Inr (Some v) \<longleftrightarrow> cached c nm key = Some v"
  by (cases nm; cases key) (simp_all add: cache_lookup_def dict_at_def)

lemma lookup_None: "lookup c nm key = Inr None \<Longrightarrow> cached c nm key = None"
  by (cases nm; cases key) (simp_all add: cache_lookup_def dict_at_def)

lemma dict_at_store:
  "dict_at (cache_store m key' v) key =
     (if key' = key \<and> is_JStr key then Some v else dict_at m key)"
  by (cases key; cases key') (simp_all add: dict_at_def cache_store_def)

lemma cached_store_same:
  "truthy v \<Longrightarrow> nm = Clusters \<or> is_JStr key \<Longrightarrow> cached (store c nm key v) nm key = Some v"
  by (cases nm) (auto simp: dict_at_store)

lemma cached_store_other:
  "cached c nm' key' = Some w \<Longrightarrow> cached c nm key = None \<Longrightarrow>
     cached (store c nm key v) nm' key' = Some w"
  by (cases nm; cases nm') (auto simp: dict_at_store split: if_splits)

lemma calls_store: "calls (store c nm key v) = calls c"
  by (cases nm) simp_all


lemma lookup_world:
  "lookup (c\<lparr>calls := x, stdout := y\<rparr>) nm key = lookup c nm key"
  by (cases nm) simp_all

lemma fetch_hit:
  "cached c nm key = Some v \<Longrightarrow> getOrFetch E c nm key paths f d = (Inr v, c)"
  by (simp add: getOrFetch_def lookup_Some [THEN iffD2])

lemma fetch_miss:
  assumes "lookup c nm key = Inr None"
  shows "getOrFetch E c nm key paths f d =
     (case request E c paths of
        (Inl e, c1) \<Rightarrow> (Inl e, c1)
      | (Inr data, c1) \<Rightarrow>
          (case py_get data f d of
             Inl e \<Rightarrow> (Inl e, c1)
           | Inr v \<Rightarrow> (Inr v, if truthy v then store c1 nm key v else c1)))"
  using assms by (simp add: getOrFetch_def)

lemma fetch_cases:
  assumes "getOrFetch E c nm key paths f d = (r, c1)"
  obtains (hit) v where "cached c nm key = Some v" "r = Inr v" "c1 = c"
  | (unhashable) e where "lookup c nm key = Inl e" "r = Inl e" "c1 = c"
  | (failed) e where "lookup c nm key = Inr None" "request E c paths = (Inl e, c1)" "r = Inl e"
  | (nofield) data e where "lookup c nm key = Inr None" "request E c paths = (Inr data, c1)"
      "py_get data f d = Inl e" "r = Inl e"
  | (stored) data c0 v where "lookup c nm key = Inr None" "request E c paths = (Inr data, c0)"
      "py_get data f d = Inr v" "r = Inr v" "truthy v" "c1 = store c0 nm key v"
  | (empty) data v where "lookup c nm key = Inr None" "request E c paths = (Inr data, c1)"
      "py_get data f d = Inr v" "r = Inr v" "\<not> truthy v"
proof (cases "lookup c nm key")
  case (Inl e)
  with assms have "r = Inl e" "c1 = c" by (simp_all add: getOrFetch_def)
  with Inl show ?thesis by (rule unhashable)
next
  case (Inr ov)
  show ?thesis
  proof (cases ov)
    case (Some v)
    with Inr assms have "r = Inr v" "c1 = c" by (simp_all add: getOrFetch_def)
    moreover from Some Inr have "cached c nm key = Some v" by (simp add: lookup_Some)
    ultimately show ?thesis using hit by blast
  next
    case None
    with Inr have miss: "lookup c nm key = Inr None" by simp
    obtain r0 c0 where rq: "request E c paths = (r0, c0)" by (cases "request E c paths")
    show ?thesis
    proof (cases r0)
      case (Inl e)
      with assms miss rq have "r = Inl e" "c1 = c0" by (simp_all add: fetch_miss)
      with miss rq Inl show ?thesis using failed by blast
    next
      case (Inr data)
      note data = this
      show ?thesis
      proof (cases "py_get data f d")
        case (Inl e)
        with assms miss rq data have "r = Inl e" "c1 = c0" by (simp_all add: fetch_miss)
        with miss rq data Inl show ?thesis using nofield by blast
      next
        case (Inr v)
        show ?thesis
        proof (cases "truthy v")
          case True
          with assms miss rq data Inr have "r = Inr v" "c1 = store c0 nm key v"
            by (simp_all add: fetch_miss)
          with miss rq data Inr True show ?thesis using stored by blast
        next
          case False
          with assms miss rq data Inr have "r = Inr v" "c1 = c0"
            by (simp_all add: fetch_miss)
          with miss rq data Inr False show ?thesis using empty by blast
        qed
      qed
    qed
  qed
qed


lemma slot_hashable:
  "list_all is_JStr (call_paths k) \<Longrightarrow> call_cache k = Clusters \<or> is_JStr (call_key E k)"
  by (cases k) simp_all

lemma call_store:
  assumes "do_call E c k = (Inr v, c1)" and "truthy v"
  shows "cached c1 (call_cache k) (call_key E k) = Some v"
proof -
  from assms(1) have "getOrFetch E c (call_cache k) (call_key E k) (call_paths k)
      (call_field k) (call_default k) = (Inr v, c1)"
    by (simp add: do_call_getOrFetch)
  then show ?thesis
  proof (cases rule: fetch_cases)
    case (hit w)
    then show ?thesis by simp
  next
    case (stored data c0 w)
    from stored(2) have "list_all is_JStr (call_paths k)" by (rule request_ok_paths)
    then have "call_cache k = Clusters \<or> is_JStr (call_key E k)" by (rule slot_hashable)
    with stored show ?thesis by (simp add: cached_store_same)
  next
    case (empty data w)
    with assms(2) show ?thesis by simp
  qed simp_all
qed

lemma call_mono:
  assumes "cached c nm key = Some w"
  shows "cached (snd (do_call E c k)) nm key = Some w"
proof -
  obtain r c1 where rc: "do_call E c k = (r, c1)" by (cases "do_call E c k")
  then have "getOrFetch E c (call_cache k) (call_key E k) (call_paths k)
      (call_field k) (call_default k) = (r, c1)"
    by (simp add: do_call_getOrFetch)
  then have "cached c1 nm key = Some w"
  proof (cases rule: fetch_cases)
    case (stored data c0 v)
    from stored(2) assms have "cached c0 nm key = Some w" by (simp add: cached_request)
    moreover from stored(1,2) have "cached c0 (call_cache k) (call_key E k) = None"
      by (simp add: cached_request lookup_None)
    ultimately show ?thesis using stored(6) by (simp add: cached_store_other)
  qed (use assms in \<open>simp_all add: cached_request\<close>)
  with rc show ?thesis by simp
qed

lemma calls_mono:
  "cached c nm key = Some w \<Longrightarrow> cached (do_calls E c ks) nm key = Some w"
  by (induction ks arbitrary: c) (simp_all add: call_mono)

lemma call_hit:
  "cached c (call_cache k) (call_key E k) = Some v \<Longrightarrow> do_call E c k = (Inr v, c)"
  by (simp add: do_call_getOrFetch fetch_hit)

lemma call_refetch:
  assumes "lookup c (call_cache k) (call_key E k) = Inr None"
  shows "calls (snd (do_call E c k)) = calls c @ [call_paths k]"
proof -
  obtain r0 c0 where rq: "request E c (call_paths k) = (r0, c0)"
    by (cases "request E c (call_paths k)")
  then have "calls c0 = calls c @ [call_paths k]"
    using request_calls [of E c "call_paths k"] by simp
  with assms rq show ?thesis
    by (simp add: do_call_getOrFetch fetch_miss calls_store split: sum.splits)
qed

lemma call_empty:
  assumes "do_call E c k = (Inr v, c1)" and "calls c1 \<noteq> calls c" and "\<not> truthy v"
  shows "c1 = c\<lparr>calls := calls c @ [call_paths k], stdout := stdout c1\<rparr>"
    and "lookup c (call_cache k) (call_key E k) = Inr None"
proof -
  from assms(1) have "getOrFetch E c (call_cache k) (call_key E k) (call_paths k)
      (call_field k) (call_default k) = (Inr v, c1)"
    by (simp add: do_call_getOrFetch)
  then have "c1 = c\<lparr>calls := calls c @ [call_paths k], stdout := stdout c1\<rparr>
      \<and> lookup c (call_cache k) (call_key E k) = Inr None"
  proof (cases rule: fetch_cases)
    case (hit w)
    with assms(2) show ?thesis by simp
  next
    case (stored data c0 w)
    with assms(3) show ?thesis by simp
  next
    case (empty data w)
    from empty(2) have "c1 = c\<lparr>calls := calls c @ [call_paths k], stdout := stdout c1\<rparr>"
      by (rule request_effect)
    with empty(1) show ?thesis by simp
  qed simp_all
  then show "c1 = c\<lparr>calls := calls c @ [call_paths k], stdout := stdout c1\<rparr>"
    and "lookup c (call_cache k) (call_key E k) = Inr None" by simp_all
qed

text \<open>
  C1. For each of the seven accessors and every key: once a call has returned a truthy
  payload, every later call of the same cache with the same key, after any run of
  accessor calls, returns that value and leaves the whole client as it is, so that
  \<^verbatim>\<open>request\<close> is not invoked. A call that invoked \<^verbatim>\<open>request\<close> and extracted a falsy
  payload leaves every cache as it was, and the next call with the same key invokes
  \<^verbatim>\<open>request\<close> again.
\<close>

theorem cache_once_per_key:
  "(do_call E c k = (Inr v, c1) \<and> truthy v
      \<and> call_cache k' = call_cache k \<and> call_key E k' = call_key E k
    \<longrightarrow> do_call E (do_calls E c1 ks) k' = (Inr v, do_calls E c1 ks))
   \<and> (do_call E c k = (Inr v, c1) \<and> calls c1 \<noteq> calls c \<and> \<not> truthy v
      \<and> call_cache k' = call_cache k \<and> call_key E k' = call_key E k
    \<longrightarrow> c1 = c\<lparr>calls := calls c @ [call_paths k], stdout := stdout c1\<rparr>
        \<and> calls (snd (do_call E c1 k')) = calls c1 @ [call_paths k'])"
proof (intro conjI impI)
  assume h: "do_call E c k = (Inr v, c1) \<and> truthy v
      \<and> call_cache k' = call_cache k \<and> call_key E k' = call_key E k"
  then have "cached c1 (call_cache k) (call_key E k) = Some v"
    using call_store [of E c k v c1] by blast
  then have "cached (do_calls E c1 ks) (call_cache k) (call_key E k) = Some v"
    by (rule calls_mono)
  with h have "cached (do_calls E c1 ks) (call_cache k') (call_key E k') = Some v" by simp
  then show "do_call E (do_calls E c1 ks) k' = (Inr v, do_calls E c1 ks)" by (rule call_hit)
next
  assume h: "do_call E c k = (Inr v, c1) \<and> calls c1 \<noteq> calls c \<and> \<not> truthy v
      \<and> call_cache k' = call_cache k \<and> call_key E k' = call_key E k"
  then have eq: "c1 = c\<lparr>calls := calls c @ [call_paths k], stdout := stdout c1\<rparr>"
    and miss: "lookup c (call_cache k) (call_key E k) = Inr None"
    using call_empty [of E c k v c1] by blast+
  show "c1 = c\<lparr>calls := calls c @ [call_paths k], stdout := stdout c1\<rparr>" by (rule eq)
  have "lookup c1 (call_cache k) (call_key E k) = lookup c (call_cache k) (call_key E k)"
    by (subst eq) (rule lookup_world)
  with miss h have "lookup c1 (call_cache k') (call_key E k') = Inr None" by simp
  then show "calls (snd (do_call E c1 k')) = calls c1 @ [call_paths k']" by (rule call_refetch)
qed


lemmas run_defs = topics_def consumers_def topic_details_def cache_lookup_def cache_store_def
  request_def address_def output_msg_def py_get_def dict_get_def pair_key_def fmt_def
  demo_client_def init_def test_env_def empty_env_def demo_env_def test_gateway_def Let_def

theorem cache_once_per_key_witness:
  "fst (do_call test_env demo_client (CTopics (JStr ''clustername1'')))
     = Inr (JArr [JStr ''topicB'', JStr ''topicA''])
   \<and> do_call test_env
        (do_calls test_env (snd (do_call test_env demo_client (CTopics (JStr ''clustername1''))))
           [CConsumers (JStr ''clustername1'')])
        (CTopics (JStr ''clustername1''))
     = (Inr (JArr [JStr ''topicB'', JStr ''topicA'']),
        do_calls test_env (snd (do_call test_env demo_client (CTopics (JStr ''clustername1''))))
           [CConsumers (JStr ''clustername1'')])
   \<and> fst (do_call empty_env demo_client (CTopics (JStr ''clustername1''))) = Inr (JArr [])
   \<and> calls (snd (do_call empty_env
        (snd (do_call empty_env demo_client (CTopics (JStr ''clustername1''))))
        (CTopics (JStr ''clustername1''))))
     = [[JStr ''clustername1'', JStr ''topic''], [JStr ''clustername1'', JStr ''topic'']]"
proof -
  let ?k = "CTopics (JStr ''clustername1'')"
  let ?v = "JArr [JStr ''topicB'', JStr ''topicA'']"
  have a: "fst (do_call test_env demo_client ?k) = Inr ?v"
    by (simp add: run_defs)
  then have a': "do_call test_env demo_client ?k = (Inr ?v, snd (do_call test_env demo_client ?k))"
    by (simp add: prod_eq_iff)
  have b: "fst (do_call empty_env demo_client ?k) = Inr (JArr [])"
    by (simp add: run_defs)
  then have b': "do_call empty_env demo_client ?k
      = (Inr (JArr []), snd (do_call empty_env demo_client ?k))"
    by (simp add: prod_eq_iff)
  have c: "calls (snd (do_call empty_env demo_client ?k)) = [[JStr ''clustername1'', JStr ''topic'']]"
    by (simp add: run_defs)
  have d: "calls demo_client = []" by (simp add: demo_client_def init_def)
  from cache_once_per_key [of test_env demo_client ?k ?v
      "snd (do_call test_env demo_client ?k)" ?k "[CConsumers (JStr ''clustername1'')]"] a'
  have 1: "do_call test_env
        (do_calls test_env (snd (do_call test_env demo_client ?k)) [CConsumers (JStr ''clustername1'')]) ?k
     = (Inr ?v, do_calls test_env (snd (do_call test_env demo_client ?k)) [CConsumers (JStr ''clustername1'')])"
    by simp
  from cache_once_per_key [of empty_env demo_client ?k "JArr []"
      "snd (do_call empty_env demo_client ?k)" ?k "[]"] b' c d
  have 2: "calls (snd (do_call empty_env (snd (do_call empty_env demo_client ?k)) ?k))
      = [[JStr ''clustername1'', JStr ''topic''], [JStr ''clustername1'', JStr ''topic'']]"
    by simp
  from a b 1 2 show ?thesis by blast
qed


section \<open>Properties of the topic report\<close>



































section \<open>Properties of the consumer report\<close>

lemmas detail_defs = report_consumers_def report_consumers_table_def consumers_def
  consumer_details_def cache_lookup_def cache_store_def request_def address_def output_msg_def
  py_get_def py_iter_def py_items_def dict_get_def pair_key_def fmt_def match_topic_def
  match_consumer_def no_filter_def demo_client_def init_def detail_env_def demo_env_def
  detail_gateway_def test_detail_def test_offsets_def Let_def

lemma detail_row_no_lag:
  "fst (detail_row E c consumer topic (JObj [(''offsets'', test_offsets), (''owner'', JStr [])]))
     = Inl ValueError"
  by (simp add: detail_row_def test_offsets_def py_get_def py_iter_def dict_get_def py_max_def
      py_min_def py_gt_def py_lt_def num_of_def format_number_def py_int_qmark)

lemma detail_row_no_offsets:
  "fst (detail_row E c consumer topic
          (JObj [(''current-lag'', JInt 0), (''offsets'', JArr []), (''owner'', JStr [])]))
     = Inl ValueError"
  "fst (detail_row E c consumer topic (JObj [(''current-lag'', JInt 0), (''owner'', JStr [])]))
     = Inl ValueError"
  by (simp_all add: detail_row_def py_get_def py_iter_def dict_get_def py_max_def)

lemma test_detail_row:
  "fst (detail_row demo_env demo_client (JStr ''group1'') (JStr ''ConsumedTopicName'') test_detail)
     = Inr [JStr ''group1'', JStr ''ConsumedTopicName'', JStr [], JStr ''0'', JStr ''2526'',
            JStr ''2527'', JStr ''1511321306786'', JStr ''date'', JStr ''age'']"
  by (simp add: detail_row_def test_detail_def test_offsets_def py_get_def py_iter_def
      dict_get_def py_max_def py_min_def py_gt_def py_lt_def num_of_def format_number_def
      py_int_def py_str_int_def digits_of.simps digit_char_def timestamp_to_date_def
      timestamp_to_age_def demo_client_def init_def demo_env_def)

lemma report_no_lag:
  "fst (report_consumers (detail_env (JObj [(''offsets'', test_offsets), (''owner'', JStr [])]))
          demo_client (JStr ''clustername1'')) = Inl ValueError"
  by (simp add: detail_defs detail_row_def py_max_def
      py_min_def py_gt_def py_lt_def num_of_def format_number_def py_int_qmark)

lemma report_no_offsets:
  "fst (report_consumers
          (detail_env (JObj [(''current-lag'', JInt 0), (''offsets'', JArr []), (''owner'', JStr [])]))
          demo_client (JStr ''clustername1'')) = Inl ValueError"
  by (simp add: detail_defs detail_row_def py_max_def)

lemma report_test_detail:
  "fst (report_consumers_table (detail_env test_detail) demo_client (JStr ''clustername1'')) =
     Inr \<lparr> field_names =
            [''Consumer Group'', ''Topic'', ''Owner'', ''Current Lag'', ''Min Offset'',
             ''Max Offset'', ''Timestamp'', ''Date'', ''Age''],
          align = ''l'',
          rows = [[JStr ''group1'', JStr ''ConsumedTopicName'', JStr [], JStr ''0'', JStr ''2526'',
            JStr ''2527'', JStr ''1511321306786'', JStr ''date'', JStr ''age'']] \<rparr>"
  by (simp add: detail_defs detail_row_def py_max_def py_min_def py_gt_def py_lt_def num_of_def
      format_number_def py_int_def py_str_int_def digits_of.simps digit_char_def
      timestamp_to_date_def timestamp_to_age_def add_row_def)

text \<open>
  C4. The claim is that a missing field never makes a report raise. In
  \<^verbatim>\<open>report_consumers\<close> an entry without \<^verbatim>\<open>current-lag\<close> gets the lag \<^verbatim>\<open>'?'\<close>,
  which \<^verbatim>\<open>format_number\<close> passes to \<^verbatim>\<open>int\<close>, and an entry whose \<^verbatim>\<open>offsets\<close>
  are empty or absent gets the empty list, of which \<^verbatim>\<open>max\<close> is taken: both raise
  \<open>ValueError\<close>, in the row and so in the whole report. With every field present the
  same entry gives its row.
\<close>

theorem report_consumers_missing_field_raises:
  "fst (detail_row E c consumer topic (JObj [(''offsets'', test_offsets), (''owner'', JStr [])]))
     = Inl ValueError
   \<and> fst (detail_row E c consumer topic
          (JObj [(''current-lag'', JInt 0), (''offsets'', JArr []), (''owner'', JStr [])]))
     = Inl ValueError
   \<and> fst (detail_row E c consumer topic (JObj [(''current-lag'', JInt 0), (''owner'', JStr [])]))
     = Inl ValueError
   \<and> fst (report_consumers (detail_env (JObj [(''offsets'', test_offsets), (''owner'', JStr [])]))
          demo_client (JStr ''clustername1'')) = Inl ValueError
   \<and> fst (report_consumers
          (detail_env (JObj [(''current-lag'', JInt 0), (''offsets'', JArr []), (''owner'', JStr [])]))
          demo_client (JStr ''clustername1'')) = Inl ValueError
   \<and> fst (report_consumers_table (detail_env test_detail) demo_client (JStr ''clustername1'')) =
       Inr \<lparr> field_names =
              [''Consumer Group'', ''Topic'', ''Owner'', ''Current Lag'', ''Min Offset'',
               ''Max Offset'', ''Timestamp'', ''Date'', ''Age''],
            align = ''l'',
            rows = [[JStr ''group1'', JStr ''ConsumedTopicName'', JStr [], JStr ''0'',
              JStr ''2526'', JStr ''2527'', JStr ''1511321306786'', JStr ''date'',
              JStr ''age'']] \<rparr>"
  using detail_row_no_lag [of E c consumer topic] detail_row_no_offsets [of E c consumer topic]
    report_no_lag report_no_offsets report_test_detail
  by blast

section \<open>Properties of the consumer status report\<close>

lemma key_eq_str: "key_eq v (JStr s) \<longleftrightarrow> v = JStr s"
  by (cases v) (auto simp: key_eq_def num_of_def)

lemma key_eq_str': "key_eq (JStr s) w \<longleftrightarrow> w = JStr s"
  by (cases w) (auto simp: key_eq_def num_of_def)

lemma key_eq_refl: "key_eq v v"
  by (cases v) (auto simp: key_eq_def num_of_def)

lemma str_in_set_add: "JStr s \<in> set (set_add v ws) \<longleftrightarrow> v = JStr s \<or> JStr s \<in> set ws"
  by (induction ws) (auto simp: key_eq_str key_eq_str')

lemma set_set_add: "set (set_add v ws) \<subseteq> insert v (set ws)"
  by (induction ws) auto

lemma distinct_set_add: "distinct ws \<Longrightarrow> distinct (set_add v ws)"
proof (induction ws)
  case Nil
  then show ?case by simp
next
  case (Cons w ws)
  show ?case
  proof (cases "key_eq v w")
    case True
    with Cons show ?thesis by simp
  next
    case False
    then have "v \<noteq> w" using key_eq_refl by auto
    with Cons False show ?thesis using set_set_add [of v ws] by auto
  qed
qed

lemma partition_step_owners:
  assumes "partition_step E c pd a = Inr a'"
  shows "{s. JStr s \<in> set (owners a')} = {s. JStr s \<in> set (owners a)} \<union>
      {s. s \<noteq> [] \<and> (\<exists>ps. get_partition_stats pd = Inr ps
          \<and> match_topic E c (ps_topic ps) = Inr True \<and> ps_owner ps = JStr s)}"
    and "distinct (owners a) \<Longrightarrow> distinct (owners a')"
  using assms
  by (auto simp: partition_step_def str_in_set_add distinct_set_add
      split: sum.splits if_splits)


lemma partitions_loop_owners:
  assumes "partitions_loop E c pds a = Inr a'" and "distinct (owners a)"
  shows "{s. JStr s \<in> set (owners a')} = {s. JStr s \<in> set (owners a)} \<union>
      {s. s \<noteq> [] \<and> (\<exists>pd \<in> set pds. \<exists>ps. get_partition_stats pd = Inr ps
          \<and> match_topic E c (ps_topic ps) = Inr True \<and> ps_owner ps = JStr s)}
    \<and> distinct (owners a')"
  using assms
proof (induction pds arbitrary: a)
  case Nil
  then show ?case by simp
next
  case (Cons pd pds)
  from Cons.prems(1) obtain a1 where step: "partition_step E c pd a = Inr a1"
    and rest: "partitions_loop E c pds a1 = Inr a'"
    by (auto split: sum.splits)
  from partition_step_owners [OF step] Cons.prems(2)
  have 1: "{s. JStr s \<in> set (owners a1)} = {s. JStr s \<in> set (owners a)} \<union>
      {s. s \<noteq> [] \<and> (\<exists>ps. get_partition_stats pd = Inr ps
          \<and> match_topic E c (ps_topic ps) = Inr True \<and> ps_owner ps = JStr s)}"
    and d: "distinct (owners a1)" by blast+
  from Cons.IH [OF rest d]
  have 2: "{s. JStr s \<in> set (owners a')} = {s. JStr s \<in> set (owners a1)} \<union>
      {s. s \<noteq> [] \<and> (\<exists>pd \<in> set pds. \<exists>ps. get_partition_stats pd = Inr ps
          \<and> match_topic E c (ps_topic ps) = Inr True \<and> ps_owner ps = JStr s)}"
    and d': "distinct (owners a')" by blast+
  from 1 2 have "{s. JStr s \<in> set (owners a')} = {s. JStr s \<in> set (owners a)} \<union>
      {s. s \<noteq> [] \<and> (\<exists>pd \<in> set (pd # pds). \<exists>ps. get_partition_stats pd = Inr ps
          \<and> match_topic E c (ps_topic ps) = Inr True \<and> ps_owner ps = JStr s)}"
    by auto
  with d' show ?case by blast
qed

lemma strs_of_all:
  "list_all is_JStr os \<Longrightarrow> str_of ` set os = {s. JStr s \<in> set os}"
proof (induction os)
  case Nil
  then show ?case by simp
next
  case (Cons v os)
  then obtain s where "v = JStr s" by (cases v) auto
  with Cons show ?case by auto
qed

lemma distinct_strs_of:
  "list_all is_JStr os \<Longrightarrow> distinct os \<Longrightarrow> distinct (map str_of os)"
proof (induction os)
  case Nil
  then show ?case by simp
next
  case (Cons v os)
  then obtain s where v: "v = JStr s" by (cases v) auto
  from Cons.prems have "str_of ` set os = {s. JStr s \<in> set os}"
    by (simp add: strs_of_all)
  with Cons v show ?case by auto
qed

lemma status_cells_shape:
  assumes "status_cells E c lag total_lag offset timestamp = (Inr cells, c1)"
  shows "\<exists>lt tt ot st dt at. cells = [JStr lt, JStr tt, JStr ot, JStr st, JStr dt, JStr at]
    \<and> format_number E c lag = Inr lt \<and> format_number E c total_lag = Inr tt"
  using assms
  by (auto simp: status_cells_def split: sum.splits prod.splits)



lemma status_row_parts:
  assumes "status_row E c consumer (JObj st) = (Inr r, c1)"
  shows "\<exists>lag items a cells.
      maxlag_lag (JObj st) = Inr lag
      \<and> py_iter (dict_get st ''partitions'' (JArr [])) = Inr items
      \<and> partitions_loop E c items
           \<lparr> topic_counts = [], owners = [], max_offset = JInt 0, max_timestamp = JInt 0 \<rparr> = Inr a
      \<and> status_cells E c lag (dict_get st ''totallag'' (JInt 0)) (max_offset a) (max_timestamp a)
           = (Inr cells, c1)
      \<and> (verbose c \<longrightarrow> (\<exists>ot tt. owners_string (owners a) = Inr ot
                 \<and> r = [consumer, dict_get st ''status'' (JStr ''?'')] @ cells @ [JStr ot, JStr tt]))
      \<and> (\<not> verbose c \<longrightarrow> r = [consumer, dict_get st ''status'' (JStr ''?'')] @ cells)"
proof (cases "verbose c")
  case True
  with assms show ?thesis
    by (simp add: status_row_def py_get_def split: sum.splits prod.splits) blast
next
  case False
  with assms show ?thesis
    by (simp add: status_row_def py_get_def split: sum.splits prod.splits)
qed



lemma status_row_verbose:
  assumes "status_row E c consumer (JObj st) = (Inr r, c1)" and "verbose c"
    and "dict_get st ''partitions'' (JArr []) = JArr pds"
  obtains lag and a :: summary and cells and ot and tt where
    "partitions_loop E c pds
       \<lparr> topic_counts = [], owners = [], max_offset = JInt 0, max_timestamp = JInt 0 \<rparr> = Inr a"
    "status_cells E c lag (dict_get st ''totallag'' (JInt 0)) (max_offset a) (max_timestamp a)
       = (Inr cells, c1)"
    "owners_string (owners a) = Inr ot"
    "r = [consumer, dict_get st ''status'' (JStr ''?'')] @ cells @ [JStr ot, JStr tt]"
proof -
  from status_row_parts [OF assms(1)] assms(2) obtain lag items and a :: summary and cells where
    0: "py_iter (dict_get st ''partitions'' (JArr [])) = Inr items"
    and 1: "partitions_loop E c items
       \<lparr> topic_counts = [], owners = [], max_offset = JInt 0, max_timestamp = JInt 0 \<rparr> = Inr a"
    and 2: "status_cells E c lag (dict_get st ''totallag'' (JInt 0)) (max_offset a)
      (max_timestamp a) = (Inr cells, c1)"
    and 3: "\<exists>ot tt. owners_string (owners a) = Inr ot
                 \<and> r = [consumer, dict_get st ''status'' (JStr ''?'')] @ cells @ [JStr ot, JStr tt]"
    by blast
  from 0 assms(3) have "items = pds" by (simp add: py_iter_def)
  with 1 2 3 that show thesis by blast
qed

lemma cells_nth:
  assumes "cells = [JStr lt, JStr tt, JStr ot, JStr st, JStr dt, JStr at]"
    and "r = [x, y] @ cells @ rest"
  shows "r ! 2 = JStr lt" and "r ! 3 = JStr tt" and "rest = [u, v] \<Longrightarrow> r ! 8 = u"
  using assms by simp_all

lemma owners_string_names:
  assumes "owners_string os = Inr t" and "distinct os"
  shows "\<exists>names. t = join '','' names \<and> sorted names \<and> distinct names
    \<and> set names = {s. JStr s \<in> set os}"
proof -
  from assms(1) have all: "list_all is_JStr os" and t: "t = join '','' (sort (map str_of os))"
    by (auto simp: owners_string_def split: if_splits)
  from all assms(2) have "distinct (sort (map str_of os))"
    by (simp add: distinct_strs_of)
  moreover from all have "set (sort (map str_of os)) = {s. JStr s \<in> set os}"
    by (simp add: strs_of_all)
  ultimately show ?thesis using t by (intro exI [of _ "sort (map str_of os)"]) simp
qed

lemma status_row_owners:
  assumes run: "status_row E c consumer (JObj st) = (Inr r, c1)" and v: "verbose c"
    and p: "dict_get st ''partitions'' (JArr []) = JArr pds"
  shows "\<exists>names. r ! 8 = JStr (join '','' names) \<and> sorted names \<and> distinct names
    \<and> set names = {s. s \<noteq> [] \<and> (\<exists>pd \<in> set pds. \<exists>ps. get_partition_stats pd = Inr ps
             \<and> match_topic E c (ps_topic ps) = Inr True \<and> ps_owner ps = JStr s)}"
proof -
  from run v p obtain lag and a :: summary and cells and ot and tt where
    loop: "partitions_loop E c pds
           \<lparr> topic_counts = [], owners = [], max_offset = JInt 0, max_timestamp = JInt 0 \<rparr> = Inr a"
    and cells: "status_cells E c lag (dict_get st ''totallag'' (JInt 0)) (max_offset a)
      (max_timestamp a) = (Inr cells, c1)"
    and ot: "owners_string (owners a) = Inr ot"
    and r: "r = [consumer, dict_get st ''status'' (JStr ''?'')] @ cells @ [JStr ot, JStr tt]"
    by (rule status_row_verbose)
  from partitions_loop_owners [OF loop]
  have set: "{s. JStr s \<in> set (owners a)} =
      {s. s \<noteq> [] \<and> (\<exists>pd \<in> set pds. \<exists>ps. get_partition_stats pd = Inr ps
             \<and> match_topic E c (ps_topic ps) = Inr True \<and> ps_owner ps = JStr s)}"
    and d: "distinct (owners a)" by simp_all
  from status_cells_shape [OF cells] obtain lt tt' ot' st' dt at where
    sh: "cells = [JStr lt, JStr tt', JStr ot', JStr st', JStr dt, JStr at]" by blast
  from cells_nth(3) [OF sh r refl] have "r ! 8 = JStr ot" .
  with owners_string_names [OF ot d] set show ?thesis by auto
qed



lemmas status_defs = status_row_def maxlag_lag_def py_contains_def py_index_def dict_has_def
  dict_get_def py_get_def py_iter_def get_partition_stats_def partition_step_def
  match_topic_def no_filter_def py_gt_def num_of_def hashable_def key_eq_def
  owners_string_def topics_string_def topic_text_def fmt_def status_cells_def
  format_number_def py_int_def py_str_int_def timestamp_to_date_def timestamp_to_age_def
  verbose_client_def demo_client_def init_def demo_env_def Let_def


lemma idle_status_row:
  "status_row demo_env verbose_client (JStr ''group1'') (JObj idle_status) =
     (Inr [JStr ''group1'', JStr ''OK'', JStr ''0'', JStr ''0'', JStr ''0'', JStr ''0'',
           JStr ''date'', JStr ''age'', JStr ''?'', JStr ''t[1]''],
      verbose_client\<lparr>clock := 1\<rparr>)"
  by (simp add: idle_status_def status_defs digits_of.simps digit_char_def)



text \<open>
  C10. A partition record without the key \<^verbatim>\<open>owner\<close> gets the owner \<^verbatim>\<open>'?'\<close> from
  \<open>get_partition_stats\<close>. That text is not empty, so when the topic of the record
  passes the filter it is among the owners that the verbose row shows, none of which is
  the empty text.
\<close>

theorem absent_owner_shown:
  "(map_of kvs ''owner'' = None \<longrightarrow>
      (\<exists>ps. get_partition_stats (JObj kvs) = Inr ps \<and> ps_owner ps = JStr ''?''))
   \<and> (status_row E c consumer (JObj st) = (Inr r, c1) \<and> verbose c
        \<and> dict_get st ''partitions'' (JArr []) = JArr pds
        \<and> JObj kvs \<in> set pds \<and> map_of kvs ''owner'' = None
        \<and> match_topic E c (dict_get kvs ''topic'' (JStr ''?'')) = Inr True \<longrightarrow>
      (\<exists>names. r ! 8 = JStr (join '','' names) \<and> sorted names \<and> distinct names
         \<and> ''?'' \<in> set names \<and> [] \<notin> set names))
   \<and> fst (status_row demo_env verbose_client (JStr ''group1'') (JObj idle_status)) =
       Inr [JStr ''group1'', JStr ''OK'', JStr ''0'', JStr ''0'', JStr ''0'', JStr ''0'',
            JStr ''date'', JStr ''age'', JStr ''?'', JStr ''t[1]'']"
proof (intro conjI impI)
  assume "map_of kvs ''owner'' = None"
  then show "\<exists>ps. get_partition_stats (JObj kvs) = Inr ps \<and> ps_owner ps = JStr ''?''"
    by (simp add: get_partition_stats_def dict_get_def Let_def)
next
  assume h: "status_row E c consumer (JObj st) = (Inr r, c1) \<and> verbose c
        \<and> dict_get st ''partitions'' (JArr []) = JArr pds
        \<and> JObj kvs \<in> set pds \<and> map_of kvs ''owner'' = None
        \<and> match_topic E c (dict_get kvs ''topic'' (JStr ''?'')) = Inr True"
  then obtain names where names: "r ! 8 = JStr (join '','' names)" "sorted names"
    "distinct names"
    and set: "set names = {s. s \<noteq> [] \<and> (\<exists>pd \<in> set pds. \<exists>ps. get_partition_stats pd = Inr ps
             \<and> match_topic E c (ps_topic ps) = Inr True \<and> ps_owner ps = JStr s)}"
    using status_row_owners [of E c consumer st r c1 pds] by blast
  from h obtain ps where "get_partition_stats (JObj kvs) = Inr ps"
    and "match_topic E c (ps_topic ps) = Inr True" and "ps_owner ps = JStr ''?''"
    by (simp add: get_partition_stats_def dict_get_def Let_def)
  with h set have "''?'' \<in> set names" by auto
  moreover from set have "[] \<notin> set names" by simp
  ultimately show "\<exists>names. r ! 8 = JStr (join '','' names) \<and> sorted names \<and> distinct names
         \<and> ''?'' \<in> set names \<and> [] \<notin> set names"
    using names by blast
next
  show "fst (status_row demo_env verbose_client (JStr ''group1'') (JObj idle_status)) =
       Inr [JStr ''group1'', JStr ''OK'', JStr ''0'', JStr ''0'', JStr ''0'', JStr ''0'',
            JStr ''date'', JStr ''age'', JStr ''?'', JStr ''t[1]'']"
    by (simp add: idle_status_row)
qed

theorem absent_owner_shown_witness:
  "status_row demo_env verbose_client (JStr ''group1'') (JObj idle_status) =
     (Inr [JStr ''group1'', JStr ''OK'', JStr ''0'', JStr ''0'', JStr ''0'', JStr ''0'',
           JStr ''date'', JStr ''age'', JStr ''?'', JStr ''t[1]''],
      verbose_client\<lparr>clock := 1\<rparr>)
   \<and> map_of [(''topic'', JStr ''t'')] ''owner'' = None
   \<and> (\<exists>ps. get_partition_stats (JObj [(''topic'', JStr ''t'')]) = Inr ps
         \<and> ps_owner ps = JStr ''?'')
   \<and> (\<exists>names. JStr ''?'' = JStr (join '','' names) \<and> sorted names \<and> distinct names
         \<and> ''?'' \<in> set names \<and> [] \<notin> set names)"
proof -
  let ?idle = "[JStr ''group1'', JStr ''OK'', JStr ''0'', JStr ''0'', JStr ''0'', JStr ''0'',
           JStr ''date'', JStr ''age'', JStr ''?'', JStr ''t[1]'']"
  have p: "dict_get idle_status ''partitions'' (JArr []) = JArr [JObj [(''topic'', JStr ''t'')]]"
    by (simp add: idle_status_def dict_get_def)
  have v: "verbose verbose_client" by (simp add: verbose_client_def)
  have o: "map_of [(''topic'', JStr ''t'')] ''owner'' = None" by simp
  have mem: "JObj [(''topic'', JStr ''t'')] \<in> set [JObj [(''topic'', JStr ''t'')]]" by simp
  have mt: "match_topic demo_env verbose_client
      (dict_get [(''topic'', JStr ''t'')] ''topic'' (JStr ''?'')) = Inr True"
    by (simp add: match_topic_def no_filter_def verbose_client_def demo_client_def init_def)
  have i8: "?idle ! 8 = JStr ''?''" by simp
  note a = absent_owner_shown [of "[(''topic'', JStr ''t'')]" demo_env verbose_client
      "JStr ''group1''" idle_status ?idle "verbose_client\<lparr>clock := 1\<rparr>"
      "[JObj [(''topic'', JStr ''t'')]]"]
  from a o have 1: "\<exists>ps. get_partition_stats (JObj [(''topic'', JStr ''t'')]) = Inr ps
         \<and> ps_owner ps = JStr ''?''" by blast
  from a idle_status_row v p o mem mt
  have 2: "\<exists>names. ?idle ! 8 = JStr (join '','' names) \<and> sorted names \<and> distinct names
         \<and> ''?'' \<in> set names \<and> [] \<notin> set names"
    by blast
  from 1 2 o idle_status_row show ?thesis unfolding i8 by blast
qed

end
